theory Spec2Isabelle
  imports Complex_Main
begin

section \<open>The learning rate controller of \<open>tasks/constclass/ablation_avgl.py\<close>\<close>

text \<open>
  The class \<open>LearningRateController\<close> has five fields. The validation accuracies it
  receives are Python floats \<open>float(numerator) / denominator\<close> of two counts, hence finite
  and never NaN; they are modelled as reals, on which the comparison is the same total order.
  The counter \<open>not_improved\<close> starts at 0 and is only reset or incremented, and both ranges
  are the positive defaults at the only place the class is constructed; they are naturals.
\<close>

record LearningRateController =
  data :: "real list"
  not_improved :: nat
  weight_decay_range :: nat
  terminate_range :: nat
  best_performance :: real

definition LearningRateController_init :: "nat \<Rightarrow> nat \<Rightarrow> LearningRateController" where
  "LearningRateController_init wdr tr =
     \<lparr>data = [], not_improved = 0, weight_decay_range = wdr, terminate_range = tr,
      best_performance = - 10000000000\<rparr>"

text \<open>\<open>LearningRateController()\<close>: the defaults \<open>weight_decay_range=5, terminate_range=20\<close>.\<close>

definition LearningRateController_default :: LearningRateController where
  "LearningRateController_default = LearningRateController_init 5 20"

text \<open>\<open>add_value\<close> mutates the object and returns \<open>self.not_improved\<close>; the model returns
  the value together with the updated object.\<close>

definition add_value :: "LearningRateController \<Rightarrow> real \<Rightarrow> nat \<times> LearningRateController" where
  "add_value self val =
     (let self1 = (if length (data self) = 0 \<or> val > best_performance self
                   then self\<lparr>not_improved := 0, best_performance := val\<rparr>
                   else self\<lparr>not_improved := not_improved self + 1\<rparr>);
          self2 = self1\<lparr>data := data self1 @ [val]\<rparr>
      in (not_improved self2, self2))"

text \<open>A sequence of calls on one object, with the list of the values returned.\<close>

fun add_values :: "LearningRateController \<Rightarrow> real list \<Rightarrow> nat list \<times> LearningRateController" where
  "add_values self [] = ([], self)"
| "add_values self (v # vs) =
     (case add_value self v of (r, self1) \<Rightarrow>
        (case add_values self1 vs of (rs, self2) \<Rightarrow> (r # rs, self2)))"

subsection \<open>The counter as the specification describes it\<close>

text \<open>Call number \<open>i\<close> (from 0) of the sequence \<open>vs\<close> improves when the history before it
  is empty or its value strictly exceeds the best value seen so far.\<close>

definition improving :: "real list \<Rightarrow> nat \<Rightarrow> bool" where
  "improving vs i \<longleftrightarrow> take i vs = [] \<or> vs ! i > Max (set (take i vs))"

text \<open>The index of the last improving call among the calls \<open>0..i\<close>.\<close>

fun last_improving :: "real list \<Rightarrow> nat \<Rightarrow> nat" where
  "last_improving vs 0 = 0"
| "last_improving vs (Suc i) = (if improving vs (Suc i) then Suc i else last_improving vs i)"

text \<open>The counter of the specification: reset by an improving call, incremented by any
  other.\<close>

fun spec_counter :: "real list \<Rightarrow> nat \<Rightarrow> nat" where
  "spec_counter vs 0 = 0"
| "spec_counter vs (Suc i) = (if improving vs (Suc i) then 0 else spec_counter vs i + 1)"

section \<open>Errors, outcomes and Python values\<close>

datatype error =
    ZeroDivisionError
  | KeyError string
  | AssertionError
  | AttributeError
  | TypeError
  | FileNotFoundError string

datatype 's outcome = Normal 's | Exited 's | Raised error 's

fun state_of :: "'s outcome \<Rightarrow> 's" where
  "state_of (Normal s) = s"
| "state_of (Exited s) = s"
| "state_of (Raised e s) = s"

definition and_then :: "'s outcome \<Rightarrow> ('s \<Rightarrow> 's outcome) \<Rightarrow> 's outcome" where
  "and_then r f = (case r of Normal s \<Rightarrow> f s | Exited s \<Rightarrow> Exited s | Raised e s \<Rightarrow> Raised e s)"

record 't optim =
  lr :: real
  opt_state :: 't

datatype 't pyval =
    Opaque 't
  | PyNone
  | PyFloat real
  | PyInt int
  | PyBool bool
  | PyStr string
  | Optim "'t optim"
  | Ctrl LearningRateController

type_synonym 't dict = "string \<rightharpoonup> 't pyval"

definition path_join :: "string \<Rightarrow> string \<Rightarrow> string" where
  "path_join a b =
     (if b \<noteq> [] \<and> hd b = CHR ''/'' then b
      else if a = [] \<or> last a = CHR ''/'' then a @ b
      else a @ ''/'' @ b)"

datatype event =
    Save_args
  | Seed
  | Build_encoder
  | Load_data
  | Build_model
  | Build_optimizer
  | Build_scheduler
  | Load_checkpoint string
  | Train_batch nat nat
  | Log_train nat nat
  | Validation nat real
  | New_best real
  | Terminating
  | Reinit_lr real
  | Save_checkpoint string nat
  | Time_up
  | No_more_optimization
  | Test_metric real


section \<open>The constituent classification script \<open>tasks/constclass/ablation_avgl.py\<close>\<close>

record args =
  model_path :: string
  model_name :: string
  epochs :: int
  learning_rate :: real
  log_step :: int
  eval_step :: int
  time_limit :: real

record ('t, 'b) env =
  model_path_exists :: bool
  label_dict_size :: nat
  train_loader :: "'b list"
  dev_loader :: "'b list"
  test_loader :: "'b list"
  seeded_rng :: 't
  seeded_cuda_rng :: 't
  init_model :: 't
  init_weighing_params :: 't
  fresh_opt_state :: 't
  optimize :: "'b \<Rightarrow> real \<Rightarrow> 't \<times> 't \<times> 't \<times> 't \<times> 't \<Rightarrow> 't \<times> 't \<times> 't \<times> 't \<times> 't"
  forward_valid :: "'t \<Rightarrow> 't \<Rightarrow> 'b \<Rightarrow> 't \<times> 't \<Rightarrow> nat \<times> 't \<times> 't"
  batch_len :: "'b \<Rightarrow> nat"
  start_time :: real
  clock :: "nat \<Rightarrow> real"

record 't state =
  model :: 't
  weighing_params :: 't
  optimizer :: "'t optim"
  rng_state :: 't
  cuda_rng_state :: 't
  best_acc :: real
  best_model :: "'t option"
  best_weighing_params :: "'t option"
  lr_controller :: LearningRateController
  start_epoch :: int
  epoch_step :: int
  terminate :: bool
  files :: "string \<rightharpoonup> 't dict"
  trace :: "event list"

definition emit :: "event list \<Rightarrow> 't state \<Rightarrow> 't state" where
  "emit es st = st\<lparr>trace := trace st @ es\<rparr>"

subsection \<open>\<open>validate\<close>\<close>

fun validate_batches ::
  "('t, 'b) env \<Rightarrow> 't \<Rightarrow> 't \<Rightarrow> 'b list \<Rightarrow> nat \<times> nat \<times> 't \<times> 't \<Rightarrow> nat \<times> nat \<times> 't \<times> 't" where
  "validate_batches env m wp [] acc = acc"
| "validate_batches env m wp (b # bs) (numerator, denominator, rng) =
     (case forward_valid env m wp b rng of
        (correct, rng') \<Rightarrow>
          validate_batches env m wp bs (numerator + correct, denominator + batch_len env b, rng'))"

definition validate :: "('t, 'b) env \<Rightarrow> 'b list \<Rightarrow> 't state \<Rightarrow> 't state \<times> (error + real)" where
  "validate env loader st =
     (let saved_rng_state = rng_state st;
          saved_cuda_rng_state = cuda_rng_state st
      in case validate_batches env (model st) (weighing_params st) loader
                (0, 0, rng_state st, cuda_rng_state st) of
           (numerator, denominator, r, c) \<Rightarrow>
             (let st1 = st\<lparr>rng_state := r, cuda_rng_state := c\<rparr>;
                  st2 = st1\<lparr>rng_state := saved_rng_state\<rparr>;
                  st3 = st2\<lparr>cuda_rng_state := saved_cuda_rng_state\<rparr>
              in (st3, if denominator = 0 then Inl ZeroDivisionError
                       else Inr (real numerator / real denominator))))"

subsection \<open>The checkpoint\<close>

definition ckpt_path :: "args \<Rightarrow> string" where
  "ckpt_path args = path_join (model_path args) (model_name args @ ''.ckpt'')"

definition args_save_path :: "args \<Rightarrow> string" where
  "args_save_path args = path_join (model_path args) (model_name args @ ''.args.pt'')"

definition opt_val :: "'t option \<Rightarrow> 't pyval" where
  "opt_val x = (case x of None \<Rightarrow> PyNone | Some w \<Rightarrow> Opaque w)"

definition checkpoint_dict :: "'t state \<Rightarrow> nat \<Rightarrow> nat \<Rightarrow> 't dict" where
  "checkpoint_dict st epoch step = map_of
     [(''model'', Opaque (model st)),
      (''weighing_params'', Opaque (weighing_params st)),
      (''best_model'', opt_val (best_model st)),
      (''best_weighing_params'', opt_val (best_weighing_params st)),
      (''best_acc'', PyFloat (best_acc st)),
      (''optimizer'', Optim (optimizer st)),
      (''epoch'', PyInt (int epoch)),
      (''step'', PyInt (int step)),
      (''lr_controller'', Ctrl (lr_controller st)),
      (''cuda_rng_state'', Opaque (cuda_rng_state st))]"

definition actual_step :: "('t, 'b) env \<Rightarrow> nat \<Rightarrow> nat \<Rightarrow> nat" where
  "actual_step env epoch step = length (train_loader env) * epoch + step + 1"

definition save_checkpoint :: "('t, 'b) env \<Rightarrow> args \<Rightarrow> nat \<Rightarrow> nat \<Rightarrow> 't state \<Rightarrow> 't state" where
  "save_checkpoint env args epoch step st =
     emit [Save_checkpoint (ckpt_path args) (actual_step env epoch step)]
       (st\<lparr>files := (files st)(ckpt_path args \<mapsto> checkpoint_dict st epoch step)\<rparr>)"

text \<open>Reading the checkpoint back, in the order of the source. A missing key raises
  \<open>KeyError\<close> at the subscript; a value of another shape than the script wrote is reported as
  \<open>TypeError\<close>.\<close>

definition set_model :: "'t pyval \<Rightarrow> 't state \<Rightarrow> 't state outcome" where
  "set_model v st = (case v of Opaque w \<Rightarrow> Normal (st\<lparr>model := w\<rparr>) | _ \<Rightarrow> Raised TypeError st)"

definition set_best_model :: "'t pyval \<Rightarrow> 't state \<Rightarrow> 't state outcome" where
  "set_best_model v st =
     (case v of Opaque w \<Rightarrow> Normal (st\<lparr>best_model := Some w\<rparr>)
      | PyNone \<Rightarrow> Normal (st\<lparr>best_model := None\<rparr>)
      | _ \<Rightarrow> Raised TypeError st)"

definition set_best_weighing_params :: "'t pyval \<Rightarrow> 't state \<Rightarrow> 't state outcome" where
  "set_best_weighing_params v st =
     (case v of Opaque w \<Rightarrow> Normal (st\<lparr>best_weighing_params := Some w\<rparr>)
      | PyNone \<Rightarrow> Normal (st\<lparr>best_weighing_params := None\<rparr>)
      | _ \<Rightarrow> Raised TypeError st)"

definition set_best_acc :: "'t pyval \<Rightarrow> 't state \<Rightarrow> 't state outcome" where
  "set_best_acc v st = (case v of PyFloat a \<Rightarrow> Normal (st\<lparr>best_acc := a\<rparr>) | _ \<Rightarrow> Raised TypeError st)"

definition set_optimizer :: "'t pyval \<Rightarrow> 't state \<Rightarrow> 't state outcome" where
  "set_optimizer v st = (case v of Optim opt \<Rightarrow> Normal (st\<lparr>optimizer := opt\<rparr>) | _ \<Rightarrow> Raised TypeError st)"

definition set_lr_controller :: "'t pyval \<Rightarrow> 't state \<Rightarrow> 't state outcome" where
  "set_lr_controller v st =
     (case v of Ctrl c \<Rightarrow> Normal (st\<lparr>lr_controller := c\<rparr>) | _ \<Rightarrow> Raised TypeError st)"

definition set_cuda_rng_state :: "'t pyval \<Rightarrow> 't state \<Rightarrow> 't state outcome" where
  "set_cuda_rng_state v st =
     (case v of Opaque r \<Rightarrow> Normal (st\<lparr>cuda_rng_state := r\<rparr>) | _ \<Rightarrow> Raised TypeError st)"

definition set_start_epoch :: "'t pyval \<Rightarrow> 't state \<Rightarrow> 't state outcome" where
  "set_start_epoch v st = (case v of PyInt n \<Rightarrow> Normal (st\<lparr>start_epoch := n\<rparr>) | _ \<Rightarrow> Raised TypeError st)"

definition set_epoch_step :: "'t pyval \<Rightarrow> 't state \<Rightarrow> 't state outcome" where
  "set_epoch_step v st = (case v of PyInt n \<Rightarrow> Normal (st\<lparr>epoch_step := n\<rparr>) | _ \<Rightarrow> Raised TypeError st)"

definition set_weighing_params :: "'t pyval \<Rightarrow> 't state \<Rightarrow> 't state outcome" where
  "set_weighing_params v st =
     (case v of Opaque w \<Rightarrow> Normal (st\<lparr>weighing_params := w\<rparr>) | _ \<Rightarrow> Raised TypeError st)"

definition checkpoint_reads :: "(string \<times> ('t pyval \<Rightarrow> 't state \<Rightarrow> 't state outcome)) list" where
  "checkpoint_reads =
     [(''model'', set_model),
      (''best_model'', set_best_model),
      (''best_weighing_params'', set_best_weighing_params),
      (''best_acc'', set_best_acc),
      (''optimizer'', set_optimizer),
      (''lr_controller'', set_lr_controller),
      (''cuda_rng_state'', set_cuda_rng_state),
      (''epoch'', set_start_epoch),
      (''step'', set_epoch_step),
      (''weighing_params'', set_weighing_params)]"

fun read_items ::
  "'t dict \<Rightarrow> (string \<times> ('t pyval \<Rightarrow> 's \<Rightarrow> 's outcome)) list \<Rightarrow> 's \<Rightarrow> 's outcome" where
  "read_items d [] st = Normal st"
| "read_items d ((k, f) # rest) st =
     (case d k of
        None \<Rightarrow> Raised (KeyError k) st
      | Some v \<Rightarrow> and_then (f v st) (read_items d rest))"

subsection \<open>The final test\<close>

definition test_best :: "('t, 'b) env \<Rightarrow> 't state \<Rightarrow> 't state outcome" where
  "test_best env st =
     (case best_model st of
        None \<Rightarrow> Raised AssertionError st
      | Some bm \<Rightarrow>
          (case best_weighing_params st of
             None \<Rightarrow> Raised AttributeError (st\<lparr>model := bm\<rparr>)
           | Some bw \<Rightarrow>
               (case validate env (test_loader env) (st\<lparr>model := bm, weighing_params := bw\<rparr>) of
                  (st1, Inl e) \<Rightarrow> Raised e st1
                | (st1, Inr test_acc) \<Rightarrow> Normal (emit [Test_metric test_acc] st1))))"

definition load_checkpoint :: "('t, 'b) env \<Rightarrow> args \<Rightarrow> 't state \<Rightarrow> 't state outcome" where
  "load_checkpoint env args st =
     (case files st (ckpt_path args) of
        None \<Rightarrow> Normal st
      | Some checkpoint \<Rightarrow>
          and_then (read_items checkpoint checkpoint_reads (emit [Load_checkpoint (ckpt_path args)] st))
            (\<lambda>st1. if not_improved (lr_controller st1) \<ge> terminate_range (lr_controller st1)
                    then and_then (test_best env (emit [No_more_optimization] st1)) Exited
                    else Normal st1))"

subsection \<open>The training loop\<close>

definition update_best :: "real \<Rightarrow> 't state \<Rightarrow> 't state" where
  "update_best curr_acc st =
     (if curr_acc > best_acc st
      then emit [New_best curr_acc]
             (st\<lparr>best_acc := curr_acc, best_model := Some (model st),
                 best_weighing_params := Some (weighing_params st)\<rparr>)
      else st)"

definition update_validation_result :: "('t, 'b) env \<Rightarrow> real \<Rightarrow> 't state \<Rightarrow> 't state outcome" where
  "update_validation_result env curr_acc st =
     (case add_value (lr_controller st) curr_acc of
        (not_improved_epoch, ctrl) \<Rightarrow>
          (let st1 = st\<lparr>lr_controller := ctrl\<rparr>
           in if not_improved_epoch = 0 then Normal st1
              else if not_improved_epoch \<ge> terminate_range ctrl
                then Normal (emit [Terminating] (st1\<lparr>terminate := True\<rparr>))
              else if weight_decay_range ctrl = 0 then Raised ZeroDivisionError st1
              else if not_improved_epoch mod weight_decay_range ctrl = 0
                then Normal (emit [Reinit_lr (lr (optimizer st1) / 2)]
                       (st1\<lparr>optimizer := \<lparr>lr = lr (optimizer st1) / 2,
                                            opt_state = fresh_opt_state env\<rparr>\<rparr>))
              else Normal st1))"

definition time_check :: "('t, 'b) env \<Rightarrow> args \<Rightarrow> nat \<Rightarrow> 't state \<Rightarrow> 't state outcome" where
  "time_check env args n st =
     (if clock env n - start_time env \<ge> time_limit args then Exited (emit [Time_up] st)
      else Normal st)"

definition evaluate :: "('t, 'b) env \<Rightarrow> args \<Rightarrow> nat \<Rightarrow> nat \<Rightarrow> 't state \<Rightarrow> 't state outcome" where
  "evaluate env args epoch step st =
     (case validate env (dev_loader env) st of
        (st1, Inl e) \<Rightarrow> Raised e st1
      | (st1, Inr curr_acc) \<Rightarrow>
          and_then
            (update_validation_result env curr_acc
               (update_best curr_acc (emit [Validation (actual_step env epoch step) curr_acc] st1)))
            (\<lambda>st2. time_check env args (actual_step env epoch step)
                     (save_checkpoint env args epoch step st2)))"

definition optimize_batch :: "('t, 'b) env \<Rightarrow> nat \<Rightarrow> nat \<Rightarrow> 'b \<Rightarrow> 't state \<Rightarrow> 't state" where
  "optimize_batch env epoch step b st =
     (case optimize env b (lr (optimizer st))
             (model st, weighing_params st, opt_state (optimizer st), rng_state st,
              cuda_rng_state st) of
        (m, wp, os, r, c) \<Rightarrow>
          emit [Train_batch epoch step]
            (st\<lparr>model := m, weighing_params := wp,
                optimizer := (optimizer st)\<lparr>opt_state := os\<rparr>,
                rng_state := r, cuda_rng_state := c\<rparr>))"

definition train_batch :: "('t, 'b) env \<Rightarrow> args \<Rightarrow> nat \<Rightarrow> nat \<Rightarrow> 'b \<Rightarrow> 't state \<Rightarrow> 't state outcome" where
  "train_batch env args epoch step b st =
     (let st1 = optimize_batch env epoch step b st;
          n = actual_step env epoch step
      in if log_step args = 0 then Raised ZeroDivisionError st1
         else (let st2 = (if int n mod log_step args = 0 then emit [Log_train epoch n] st1 else st1)
               in if eval_step args = 0 then Raised ZeroDivisionError st2
                  else if int n mod eval_step args = 0 then evaluate env args epoch step st2
                  else Normal st2))"

definition skip_batch :: "'t state \<Rightarrow> nat \<Rightarrow> nat \<Rightarrow> bool" where
  "skip_batch st epoch step \<longleftrightarrow>
     int epoch < start_epoch st \<or> (int epoch = start_epoch st \<and> int step \<le> epoch_step st)"

fun epoch_loop ::
  "('t, 'b) env \<Rightarrow> args \<Rightarrow> nat \<Rightarrow> (nat \<times> 'b) list \<Rightarrow> 't state \<Rightarrow> 't state outcome" where
  "epoch_loop env args epoch [] st = Normal st"
| "epoch_loop env args epoch ((step, b) # rest) st =
     (if terminate st then Normal st
      else if skip_batch st epoch step then epoch_loop env args epoch rest st
      else and_then (train_batch env args epoch step b st) (epoch_loop env args epoch rest))"

fun training :: "('t, 'b) env \<Rightarrow> args \<Rightarrow> nat list \<Rightarrow> 't state \<Rightarrow> 't state outcome" where
  "training env args [] st = Normal st"
| "training env args (epoch # rest) st =
     (if terminate st then Normal st
      else and_then (epoch_loop env args epoch (enumerate 0 (train_loader env)) st)
             (training env args rest))"

subsection \<open>The script\<close>

definition initial_state :: "('t, 'b) env \<Rightarrow> args \<Rightarrow> (string \<rightharpoonup> 't dict) \<Rightarrow> 't state" where
  "initial_state env args fs =
     \<lparr>model = init_model env, weighing_params = init_weighing_params env,
      optimizer = \<lparr>lr = learning_rate args, opt_state = fresh_opt_state env\<rparr>,
      rng_state = seeded_rng env, cuda_rng_state = seeded_cuda_rng env,
      best_acc = 0, best_model = None, best_weighing_params = None,
      lr_controller = LearningRateController_default,
      start_epoch = 0, epoch_step = - 1, terminate = False,
      files = fs, trace = []\<rparr>"

definition initialize :: "('t, 'b) env \<Rightarrow> args \<Rightarrow> 't state \<Rightarrow> 't state outcome" where
  "initialize env args st =
     (if \<not> model_path_exists env then Raised (FileNotFoundError (args_save_path args)) st
      else (let st1 = emit [Save_args, Seed, Build_encoder, Load_data] st
            in if label_dict_size env \<noteq> 2 then Raised AssertionError st1
               else Normal (emit [Build_model, Build_optimizer] st1)))"

definition main :: "('t, 'b) env \<Rightarrow> args \<Rightarrow> (string \<rightharpoonup> 't dict) \<Rightarrow> 't state outcome" where
  "main env args fs =
     and_then (initialize env args (initial_state env args fs)) (\<lambda>st.
     and_then (load_checkpoint env args st) (\<lambda>st.
     and_then (training env args [0..<nat (epochs args)] st) (test_best env)))"

section \<open>The coreference script \<open>tasks/coref/train.py\<close>\<close>

datatype coref_event =
    Makedirs string
  | Manual_seed
  | Model_built
  | Data_loaded
  | Optimizer_built
  | Scheduler_built
  | Total_steps int
  | Loading_previous_checkpoint
  | Steps_done int real
  | Epoch_started
  | Train_step int
  | Val_f1 int real
  | Max_f1 real
  | Model_saved string
  | Epoch_done
  | Final_f1 real real

record hp =
  hp_data_dir :: string
  hp_model_dir :: string
  hp_batch_size :: int
  hp_eval_batch_size :: int
  hp_n_epochs :: int
  hp_lr :: real
  hp_lr_tune :: real
  hp_span_dim :: int
  hp_model :: string
  hp_model_size :: string
  hp_fine_tune :: bool
  hp_pool_method :: string
  hp_train_frac :: real
  hp_seed :: int
  hp_eval :: bool

text \<open>\<open>vars(hp)\<close>: the namespace as a dictionary.\<close>

definition vars_hp :: "hp \<Rightarrow> 't dict" where
  "vars_hp h = map_of
     [(''data_dir'', PyStr (hp_data_dir h)),
      (''model_dir'', PyStr (hp_model_dir h)),
      (''batch_size'', PyInt (hp_batch_size h)),
      (''eval_batch_size'', PyInt (hp_eval_batch_size h)),
      (''n_epochs'', PyInt (hp_n_epochs h)),
      (''lr'', PyFloat (hp_lr h)),
      (''lr_tune'', PyFloat (hp_lr_tune h)),
      (''span_dim'', PyInt (hp_span_dim h)),
      (''model'', PyStr (hp_model h)),
      (''model_size'', PyStr (hp_model_size h)),
      (''fine_tune'', PyBool (hp_fine_tune h)),
      (''pool_method'', PyStr (hp_pool_method h)),
      (''train_frac'', PyFloat (hp_train_frac h)),
      (''seed'', PyInt (hp_seed h)),
      (''eval'', PyBool (hp_eval h))]"

subsection \<open>\<open>get_model_name\<close>\<close>

definition imp_opts :: "string list" where
  "imp_opts = [''model'', ''model_size'', ''batch_size'', ''n_epochs'', ''fine_tune'',
     ''span_dim'', ''pool_method'', ''train_frac'', ''seed'', ''lr'', ''lr_tune'']"

fun collect_opts :: "'t dict \<Rightarrow> string list \<Rightarrow> error + (string \<times> 't pyval) list" where
  "collect_opts hp_dict [] = Inr []"
| "collect_opts hp_dict (key # keys) =
     (case hp_dict key of
        None \<Rightarrow> Inl (KeyError key)
      | Some val \<Rightarrow>
          (case collect_opts hp_dict keys of
             Inl e \<Rightarrow> Inl e
           | Inr opt_dict \<Rightarrow> Inr ((key, val) # opt_dict)))"

fun join_with :: "string \<Rightarrow> string list \<Rightarrow> string" where
  "join_with sep [] = []"
| "join_with sep [x] = x"
| "join_with sep (x # y # ys) = x @ sep @ join_with sep (y # ys)"

fun str_item :: "('t pyval \<Rightarrow> string) \<Rightarrow> string \<times> 't pyval \<Rightarrow> string" where
  "str_item repr (key, val) = ''('' @ repr (PyStr key) @ '', '' @ repr val @ '')''"

definition str_items :: "('t pyval \<Rightarrow> string) \<Rightarrow> (string \<times> 't pyval) list \<Rightarrow> string" where
  "str_items repr opt_dict = ''odict_items(['' @ join_with '', '' (map (str_item repr) opt_dict) @ ''])''"

definition get_model_name ::
  "('t pyval \<Rightarrow> string) \<Rightarrow> (string \<Rightarrow> string) \<Rightarrow> hp \<Rightarrow> error + string" where
  "get_model_name repr md5_hexdigest h =
     (case collect_opts (vars_hp h) imp_opts of
        Inl e \<Rightarrow> Inl e
      | Inr opt_dict \<Rightarrow> Inr (''coref_'' @ md5_hexdigest (str_items repr opt_dict)))"

subsection \<open>State and framework\<close>

record ('t, 'b) coref_env =
  c_repr :: "'t pyval \<Rightarrow> string"
  c_md5_hexdigest :: "string \<Rightarrow> string"
  c_train_iter :: "'b list"
  c_val_iter :: "'b list"
  c_test_iter :: "'b list"
  c_train_size :: nat
  c_seeded_rng :: 't
  c_init_model :: 't
  c_fresh_opt_state :: 't
  c_fresh_scheduler :: 't
  c_optimize :: "'b \<Rightarrow> 't \<times> 't optim \<times> 't option \<times> 't \<Rightarrow> 't \<times> 't \<times> 't option \<times> 't"
  c_confusion :: "'t \<Rightarrow> 'b \<Rightarrow> nat \<times> nat \<times> nat \<times> nat"
  c_scheduler_step :: "real \<Rightarrow> 't \<times> 't optim \<Rightarrow> 't \<times> 't optim"

record 't coref_state =
  c_model :: 't
  c_optimizer :: "'t optim"
  c_optimizer_tune :: "'t option"
  c_scheduler :: 't
  c_rng_state :: 't
  steps_done :: int
  max_f1 :: real
  c_files :: "string \<rightharpoonup> 't dict"
  c_dirs :: "string set"
  c_trace :: "coref_event list"

definition c_emit :: "coref_event list \<Rightarrow> 't coref_state \<Rightarrow> 't coref_state" where
  "c_emit es st = st\<lparr>c_trace := c_trace st @ es\<rparr>"

subsection \<open>\<open>eval\<close>\<close>

fun confusion_sums ::
  "('t, 'b) coref_env \<Rightarrow> 't \<Rightarrow> 'b list \<Rightarrow> nat \<times> nat \<times> nat \<times> nat \<Rightarrow> nat \<times> nat \<times> nat \<times> nat" where
  "confusion_sums env m [] acc = acc"
| "confusion_sums env m (b # bs) (tp, tn, fp, fn) =
     (case c_confusion env m b of
        (tp', tn', fp', fn') \<Rightarrow> confusion_sums env m bs (tp + tp', tn + tn', fp + fp', fn + fn'))"

definition eps :: real where
  "eps = 1 / 100000000"

definition f_score :: "nat \<times> nat \<times> nat \<times> nat \<Rightarrow> real" where
  "f_score cs =
     (case cs of (tp, tn, fp, fn) \<Rightarrow>
        (let recall = real tp / (real tp + real fn + eps);
             precision = real tp / (real tp + real fp + eps)
         in (2 * recall * precision) / (recall + precision + eps)))"

definition eval_f1 :: "('t, 'b) coref_env \<Rightarrow> 't \<Rightarrow> 'b list \<Rightarrow> real" where
  "eval_f1 env m val_iter = f_score (confusion_sums env m val_iter (0, 0, 0, 0))"

subsection \<open>\<open>save_model\<close> and \<open>train\<close>\<close>

definition save_model :: "'t coref_state \<Rightarrow> int \<Rightarrow> real \<Rightarrow> string \<Rightarrow> 't coref_state" where
  "save_model st steps max_f1_arg location =
     c_emit [Model_saved location]
       (st\<lparr>c_files := (c_files st)(location \<mapsto> map_of
          [(''steps_done'', PyInt steps),
           (''max_f1'', PyFloat max_f1_arg),
           (''model_state_dict'', Opaque (c_model st)),
           (''optimizer_state_dict'', Optim (c_optimizer st)),
           (''scheduler_state_dict'', Opaque (c_scheduler st)),
           (''rng_state'', Opaque (c_rng_state st))])\<rparr>)"

definition EVAL_STEPS :: int where
  "EVAL_STEPS = 1000"

definition coref_evaluate :: "('t, 'b) coref_env \<Rightarrow> string \<Rightarrow> string \<Rightarrow> 't coref_state \<Rightarrow> 't coref_state" where
  "coref_evaluate env model_dir best_model_dir st =
     (let f1 = eval_f1 env (c_model st) (c_val_iter env);
          st1 = c_emit [Val_f1 (steps_done st) f1] st
      in case c_scheduler_step env f1 (c_scheduler st1, c_optimizer st1) of
           (sched, opt) \<Rightarrow>
             (let st2 = st1\<lparr>c_scheduler := sched, c_optimizer := opt\<rparr>;
                  st3 = (if f1 > max_f1 st2
                         then save_model (c_emit [Max_f1 f1] (st2\<lparr>max_f1 := f1\<rparr>))
                                (steps_done st2) f1 (path_join best_model_dir ''model.pt'')
                         else st2)
              in save_model st3 (steps_done st3) f1 (path_join model_dir ''model.pt'')))"

definition train_step :: "('t, 'b) coref_env \<Rightarrow> string \<Rightarrow> string \<Rightarrow> 'b \<Rightarrow> 't coref_state \<Rightarrow> 't coref_state" where
  "train_step env model_dir best_model_dir b st =
     (case c_optimize env b (c_model st, c_optimizer st, c_optimizer_tune st, c_rng_state st) of
        (m, os, tune, r) \<Rightarrow>
          (let st1 = c_emit [Train_step (steps_done st + 1)]
                       (st\<lparr>c_model := m, c_optimizer := (c_optimizer st)\<lparr>opt_state := os\<rparr>,
                           c_optimizer_tune := tune, c_rng_state := r,
                           steps_done := steps_done st + 1\<rparr>)
           in if steps_done st1 mod EVAL_STEPS = 0
              then coref_evaluate env model_dir best_model_dir st1
              else st1))"

fun train_epoch :: "('t, 'b) coref_env \<Rightarrow> string \<Rightarrow> string \<Rightarrow> 'b list \<Rightarrow> 't coref_state \<Rightarrow> 't coref_state" where
  "train_epoch env model_dir best_model_dir [] st = st"
| "train_epoch env model_dir best_model_dir (b # bs) st =
     train_epoch env model_dir best_model_dir bs (train_step env model_dir best_model_dir b st)"

partial_function (option) train ::
  "('t, 'b) coref_env \<Rightarrow> string \<Rightarrow> string \<Rightarrow> int \<Rightarrow> 't coref_state \<Rightarrow> 't coref_state option" where
  "train env model_dir best_model_dir num_steps st =
     (if steps_done st < num_steps
      then train env model_dir best_model_dir num_steps
             (c_emit [Epoch_done]
                (train_epoch env model_dir best_model_dir (c_train_iter env)
                   (c_emit [Epoch_started] st)))
      else Some st)"

declare train.simps [code]

subsection \<open>\<open>final_eval\<close> and \<open>main\<close>\<close>

definition final_eval :: "('t, 'b) coref_env \<Rightarrow> string \<Rightarrow> 't coref_state \<Rightarrow> 't coref_state outcome" where
  "final_eval env best_model_dir st =
     (case c_files st (path_join best_model_dir ''model.pt'') of
        None \<Rightarrow> Normal st
      | Some checkpoint \<Rightarrow>
          (case checkpoint ''model_state_dict'' of
             None \<Rightarrow> Raised (KeyError ''model_state_dict'') st
           | Some (Opaque m) \<Rightarrow>
               (case checkpoint ''max_f1'' of
                  None \<Rightarrow> Raised (KeyError ''max_f1'') st
                | Some (PyFloat best) \<Rightarrow>
                    Normal (c_emit [Final_f1 best (eval_f1 env m (c_test_iter env))] st)
                | Some _ \<Rightarrow> Raised TypeError st)
           | Some _ \<Rightarrow> Raised TypeError st))"

definition set_c_model :: "'t pyval \<Rightarrow> 't coref_state \<Rightarrow> 't coref_state outcome" where
  "set_c_model v st = (case v of Opaque w \<Rightarrow> Normal (st\<lparr>c_model := w\<rparr>) | _ \<Rightarrow> Raised TypeError st)"

definition set_c_optimizer :: "'t pyval \<Rightarrow> 't coref_state \<Rightarrow> 't coref_state outcome" where
  "set_c_optimizer v st =
     (case v of Optim opt \<Rightarrow> Normal (st\<lparr>c_optimizer := opt\<rparr>) | _ \<Rightarrow> Raised TypeError st)"

definition set_c_scheduler :: "'t pyval \<Rightarrow> 't coref_state \<Rightarrow> 't coref_state outcome" where
  "set_c_scheduler v st =
     (case v of Opaque s \<Rightarrow> Normal (st\<lparr>c_scheduler := s\<rparr>) | _ \<Rightarrow> Raised TypeError st)"

definition set_steps_done :: "'t pyval \<Rightarrow> 't coref_state \<Rightarrow> 't coref_state outcome" where
  "set_steps_done v st =
     (case v of PyInt n \<Rightarrow> Normal (st\<lparr>steps_done := n\<rparr>) | _ \<Rightarrow> Raised TypeError st)"

definition set_max_f1 :: "'t pyval \<Rightarrow> 't coref_state \<Rightarrow> 't coref_state outcome" where
  "set_max_f1 v st = (case v of PyFloat a \<Rightarrow> Normal (st\<lparr>max_f1 := a\<rparr>) | _ \<Rightarrow> Raised TypeError st)"

definition set_c_rng_state :: "'t pyval \<Rightarrow> 't coref_state \<Rightarrow> 't coref_state outcome" where
  "set_c_rng_state v st =
     (case v of Opaque r \<Rightarrow> Normal (st\<lparr>c_rng_state := r\<rparr>) | _ \<Rightarrow> Raised TypeError st)"

definition coref_checkpoint_reads ::
  "(string \<times> ('t pyval \<Rightarrow> 't coref_state \<Rightarrow> 't coref_state outcome)) list" where
  "coref_checkpoint_reads =
     [(''model_state_dict'', set_c_model),
      (''optimizer_state_dict'', set_c_optimizer),
      (''scheduler_state_dict'', set_c_scheduler),
      (''steps_done'', set_steps_done),
      (''max_f1'', set_max_f1),
      (''rng_state'', set_c_rng_state)]"

definition log_steps_done :: "'t coref_state \<Rightarrow> 't coref_state outcome" where
  "log_steps_done st = Normal (c_emit [Steps_done (steps_done st) (max_f1 st)] st)"

definition coref_load_checkpoint :: "string \<Rightarrow> 't coref_state \<Rightarrow> 't coref_state outcome" where
  "coref_load_checkpoint best_model_path st =
     (case c_files st (path_join best_model_path ''model.pt'') of
        None \<Rightarrow> Normal st
      | Some checkpoint \<Rightarrow>
          and_then
            (read_items checkpoint coref_checkpoint_reads (c_emit [Loading_previous_checkpoint] st))
            log_steps_done)"


definition coref_model_path :: "hp \<Rightarrow> string \<Rightarrow> string" where
  "coref_model_path h name = path_join (hp_model_dir h) name"




section \<open>Observations on traces and outcomes\<close>

fun is_raised :: "'s outcome \<Rightarrow> bool" where
  "is_raised (Raised e s) = True"
| "is_raised (Normal s) = False"
| "is_raised (Exited s) = False"

text \<open>The batches trained on, the validations with their global step and accuracy and the
  checkpoints written, in the order of the trace.\<close>

fun trained :: "event list \<Rightarrow> (nat \<times> nat) list" where
  "trained [] = []"
| "trained (Train_batch epoch step # es) = (epoch, step) # trained es"
| "trained (ev # es) = trained es"

fun validated :: "event list \<Rightarrow> (nat \<times> real) list" where
  "validated [] = []"
| "validated (Validation n a # es) = (n, a) # validated es"
| "validated (ev # es) = validated es"

fun saved :: "event list \<Rightarrow> (string \<times> nat) list" where
  "saved [] = []"
| "saved (Save_checkpoint p n # es) = (p, n) # saved es"
| "saved (ev # es) = saved es"

text \<open>The events of the start of the script, before the checkpoint is looked for.\<close>

fun is_startup_event :: "event \<Rightarrow> bool" where
  "is_startup_event Save_args = True"
| "is_startup_event Seed = True"
| "is_startup_event Build_encoder = True"
| "is_startup_event Load_data = True"
| "is_startup_event Build_model = True"
| "is_startup_event Build_optimizer = True"
| "is_startup_event ev = False"

text \<open>Lexicographic order on the positions \<open>(epoch, step)\<close> of batches.\<close>

definition batch_le :: "nat \<times> nat \<Rightarrow> nat \<times> nat \<Rightarrow> bool" where
  "batch_le p q \<longleftrightarrow> fst p < fst q \<or> (fst p = fst q \<and> snd p \<le> snd q)"

text \<open>All batch positions of the epochs \<open>es\<close> over a loader of \<open>n\<close> batches, in the order
  in which the two loops visit them.\<close>

definition all_batches :: "nat list \<Rightarrow> nat \<Rightarrow> (nat \<times> nat) list" where
  "all_batches es n = concat (map (\<lambda>epoch. map (Pair epoch) [0..<n]) es)"

text \<open>Relations between the state before a part of the training loop and its outcome: the
  resume position is kept; only events after the start of the script are added; the best
  accuracy is the maximum of its old value and the accuracies validated; validations happen
  at the multiples of \<open>eval_step\<close> and each one is followed by a checkpoint.\<close>

definition keeps_position :: "'t state \<Rightarrow> 't state outcome \<Rightarrow> bool" where
  "keeps_position st r \<longleftrightarrow>
     start_epoch (state_of r) = start_epoch st \<and> epoch_step (state_of r) = epoch_step st"


definition tracks_best :: "'t state \<Rightarrow> 't state outcome \<Rightarrow> bool" where
  "tracks_best st r \<longleftrightarrow>
     (\<exists>es. trace (state_of r) = trace st @ es
        \<and> best_acc (state_of r) = Max (insert (best_acc st) (snd ` set (validated es)))
        \<and> (\<forall>m \<in> snd ` set (validated es). 0 \<le> m))"


text \<open>The state of a restarted run \<open>st0\<close> after it has read the checkpoint that was written
  from the state \<open>st\<close> at the batch \<open>(epoch, step)\<close>.\<close>

definition resumed :: "'t state \<Rightarrow> 't state \<Rightarrow> nat \<Rightarrow> nat \<Rightarrow> 't state" where
  "resumed st0 st epoch step =
     st0\<lparr>model := model st, best_model := best_model st,
         best_weighing_params := best_weighing_params st, best_acc := best_acc st,
         optimizer := optimizer st, lr_controller := lr_controller st,
         cuda_rng_state := cuda_rng_state st, start_epoch := int epoch,
         epoch_step := int step, weighing_params := weighing_params st\<rparr>"


definition startup_events :: "event list" where
  "startup_events = [Save_args, Seed, Build_encoder, Load_data, Build_model, Build_optimizer]"

subsection \<open>Traces of the coreference script\<close>

fun c_trained :: "coref_event list \<Rightarrow> int list" where
  "c_trained [] = []"
| "c_trained (Train_step n # es) = n # c_trained es"
| "c_trained (ev # es) = c_trained es"

fun c_validated :: "coref_event list \<Rightarrow> (int \<times> real) list" where
  "c_validated [] = []"
| "c_validated (Val_f1 n f # es) = (n, f) # c_validated es"
| "c_validated (ev # es) = c_validated es"

definition c_tracks_best :: "'t coref_state \<Rightarrow> 't coref_state \<Rightarrow> bool" where
  "c_tracks_best st st' \<longleftrightarrow>
     (\<exists>es. c_trace st' = c_trace st @ es
        \<and> max_f1 st' = Max (insert (max_f1 st) (snd ` set (c_validated es)))
        \<and> (\<forall>m \<in> snd ` set (c_validated es). 0 \<le> m))"


text \<open>Two namespaces that agree on the eleven options of \<open>imp_opts\<close>.\<close>

definition agree_on_imp_opts :: "hp \<Rightarrow> hp \<Rightarrow> bool" where
  "agree_on_imp_opts h1 h2 \<longleftrightarrow>
     hp_model h1 = hp_model h2 \<and> hp_model_size h1 = hp_model_size h2
     \<and> hp_batch_size h1 = hp_batch_size h2 \<and> hp_n_epochs h1 = hp_n_epochs h2
     \<and> hp_fine_tune h1 = hp_fine_tune h2 \<and> hp_span_dim h1 = hp_span_dim h2
     \<and> hp_pool_method h1 = hp_pool_method h2 \<and> hp_train_frac h1 = hp_train_frac h2
     \<and> hp_seed h1 = hp_seed h2 \<and> hp_lr h1 = hp_lr h2 \<and> hp_lr_tune h1 = hp_lr_tune h2"



text \<open>The state of a restarted run \<open>st0\<close> of the coreference script after it has read the
  checkpoint that \<open>save_model\<close> wrote from the state \<open>st\<close> with the step count \<open>n\<close> and
  the metric \<open>f\<close>.\<close>

definition c_resumed :: "'t coref_state \<Rightarrow> 't coref_state \<Rightarrow> int \<Rightarrow> real \<Rightarrow> 't coref_state" where
  "c_resumed st0 st n f =
     st0\<lparr>c_model := c_model st, c_optimizer := c_optimizer st, c_scheduler := c_scheduler st,
         steps_done := n, max_f1 := f, c_rng_state := c_rng_state st\<rparr>"

section \<open>Example runs\<close>

text \<open>A small instance of the constituent classification script: two training batches per
  epoch, one development and one test batch of two spans each. A training step adds one to
  the weights; validation finds one of the two spans right when the weights are 2 and none
  otherwise; the clock shows the global step.\<close>

fun demo_optimize :: "nat \<Rightarrow> real \<Rightarrow> nat \<times> nat \<times> nat \<times> nat \<times> nat \<Rightarrow> nat \<times> nat \<times> nat \<times> nat \<times> nat" where
  "demo_optimize b rate (m, wp, os, r, c) = (m + 1, wp, os + 1, r, c + 1)"

fun demo_forward_valid :: "nat \<Rightarrow> nat \<Rightarrow> nat \<Rightarrow> nat \<times> nat \<Rightarrow> nat \<times> nat \<times> nat" where
  "demo_forward_valid m wp b (r, c) = (if m = 2 then 1 else 0, r + 1, c + 1)"

fun demo_batch_len :: "nat \<Rightarrow> nat" where
  "demo_batch_len b = 2"

fun demo_clock :: "nat \<Rightarrow> real" where
  "demo_clock n = real n"

definition demo_env :: "(nat, nat) env" where
  "demo_env =
     \<lparr>model_path_exists = True, label_dict_size = 2,
      train_loader = [0, 1], dev_loader = [0], test_loader = [0],
      seeded_rng = 0, seeded_cuda_rng = 0, init_model = 0, init_weighing_params = 0,
      fresh_opt_state = 0, optimize = demo_optimize, forward_valid = demo_forward_valid,
      batch_len = demo_batch_len, start_time = 0, clock = demo_clock\<rparr>"

definition demo_args :: args where
  "demo_args =
     \<lparr>model_path = ''checkpoints'', model_name = ''debug'', epochs = 2,
      learning_rate = 1 / 2, log_step = 10, eval_step = 2, time_limit = 100\<rparr>"

definition no_files :: "string \<rightharpoonup> nat dict" where
  "no_files = Map.empty"

text \<open>A file system whose checkpoint file holds an empty dictionary.\<close>

definition broken_files :: "string \<rightharpoonup> nat dict" where
  "broken_files = [ckpt_path demo_args \<mapsto> Map.empty]"

text \<open>A controller after \<open>k\<close> evaluations without improvement on the first accuracy 1, and
  the state of the example run with this controller.\<close>

definition stale_controller :: "nat \<Rightarrow> LearningRateController" where
  "stale_controller k =
     \<lparr>data = replicate (Suc k) 1, not_improved = k, weight_decay_range = 5,
      terminate_range = 20, best_performance = 1\<rparr>"

definition stale_state :: "nat \<Rightarrow> nat state" where
  "stale_state k =
     (initial_state demo_env demo_args no_files)
       \<lparr>lr_controller := stale_controller k, best_acc := 1, best_model := Some 2,
        best_weighing_params := Some 0\<rparr>"


text \<open>The file system left by a run that wrote its checkpoint at the second batch of the
  first epoch, from a state whose controller counts 4.\<close>

definition resume_files :: "string \<rightharpoonup> nat dict" where
  "resume_files = [ckpt_path demo_args \<mapsto> checkpoint_dict (stale_state 4) 0 1]"

text \<open>A small instance of the coreference script: one training batch per epoch, 2000 steps
  in total with the evaluation at every 1000th, and a run found at step 999 by its restart.
  A training step adds one to the weights; every evaluation finds one true positive and one
  true negative.\<close>

fun demo_c_optimize :: "nat \<Rightarrow> nat \<times> nat optim \<times> nat option \<times> nat \<Rightarrow> nat \<times> nat \<times> nat option \<times> nat" where
  "demo_c_optimize b (m, opt, tune, r) = (m + 1, opt_state opt + 1, tune, r + 1)"

fun demo_confusion :: "nat \<Rightarrow> nat \<Rightarrow> nat \<times> nat \<times> nat \<times> nat" where
  "demo_confusion m b = (1, 1, 0, 0)"

fun demo_scheduler_step :: "real \<Rightarrow> nat \<times> nat optim \<Rightarrow> nat \<times> nat optim" where
  "demo_scheduler_step f (s, opt) = (s + 1, opt)"

fun demo_repr :: "nat pyval \<Rightarrow> string" where
  "demo_repr (PyStr s) = CHR 0x27 # s @ [CHR 0x27]"
| "demo_repr v = ''v''"

fun demo_md5 :: "string \<Rightarrow> string" where
  "demo_md5 s = ''0f''"

definition demo_cenv :: "(nat, nat) coref_env" where
  "demo_cenv =
     \<lparr>c_repr = demo_repr, c_md5_hexdigest = demo_md5,
      c_train_iter = [0], c_val_iter = [0], c_test_iter = [0], c_train_size = 4,
      c_seeded_rng = 0, c_init_model = 0, c_fresh_opt_state = 0, c_fresh_scheduler = 0,
      c_optimize = demo_c_optimize, c_confusion = demo_confusion,
      c_scheduler_step = demo_scheduler_step\<rparr>"

definition demo_hp :: hp where
  "demo_hp =
     \<lparr>hp_data_dir = ''data'', hp_model_dir = ''ckpts'', hp_batch_size = 2,
      hp_eval_batch_size = 2, hp_n_epochs = 500, hp_lr = 1 / 10000, hp_lr_tune = 1 / 100000,
      hp_span_dim = 256, hp_model = ''bert'', hp_model_size = ''base'', hp_fine_tune = False,
      hp_pool_method = ''avg'', hp_train_frac = 1, hp_seed = 0, hp_eval = False\<rparr>"

definition demo_checkpoint :: "nat dict" where
  "demo_checkpoint = map_of
     [(''steps_done'', PyInt 999), (''max_f1'', PyFloat 0),
      (''model_state_dict'', Opaque 999), (''optimizer_state_dict'', Optim \<lparr>lr = 1 / 10000, opt_state = 999\<rparr>),
      (''scheduler_state_dict'', Opaque 0), (''rng_state'', Opaque 999)]"

definition demo_cst :: "(string \<rightharpoonup> nat dict) \<Rightarrow> nat coref_state" where
  "demo_cst fs =
     \<lparr>c_model = 0, c_optimizer = \<lparr>lr = 0, opt_state = 0\<rparr>, c_optimizer_tune = None,
      c_scheduler = 0, c_rng_state = 0, steps_done = 0, max_f1 = 0,
      c_files = fs, c_dirs = {}, c_trace = []\<rparr>"

text \<open>The state from which the example checkpoint was written.\<close>

definition demo_cst_saved :: "nat coref_state" where
  "demo_cst_saved =
     \<lparr>c_model = 999, c_optimizer = \<lparr>lr = 1 / 10000, opt_state = 999\<rparr>,
      c_optimizer_tune = None, c_scheduler = 0, c_rng_state = 999, steps_done = 999,
      max_f1 = 0, c_files = Map.empty, c_dirs = {}, c_trace = []\<rparr>"

definition demo_cfiles :: "string \<rightharpoonup> nat dict" where
  "demo_cfiles = [''ckpts/coref_0f/best_models/model.pt'' \<mapsto> demo_checkpoint]"

text \<open>The coreference run one step before its first evaluation.\<close>

definition demo_cst_999 :: "nat coref_state" where
  "demo_cst_999 = (demo_cst Map.empty)\<lparr>steps_done := 999\<rparr>"

text \<open>Two more namespaces: one that differs from the example in options outside
  \<open>imp_opts\<close> only, and one that differs in \<open>model_dir\<close>.\<close>

definition demo_hp_eval :: hp where
  "demo_hp_eval = demo_hp\<lparr>hp_data_dir := ''elsewhere'', hp_eval_batch_size := 64, hp_eval := True\<rparr>"

definition demo_hp_moved :: hp where
  "demo_hp_moved = demo_hp\<lparr>hp_model_dir := ''other''\<rparr>"



section \<open>Properties of the controller\<close>

lemma add_values_snoc:
  "add_values c (vs @ [v]) =
     (case add_values c vs of (rs, c1) \<Rightarrow>
        (case add_value c1 v of (r, c2) \<Rightarrow> (rs @ [r], c2)))"
  by (induction vs arbitrary: c) (auto split: prod.splits)

lemma improving_0: "improving vs 0"
  by (simp add: improving_def)

lemma improving_append:
  "i < length vs \<Longrightarrow> improving (vs @ ws) i = improving vs i"
  by (simp add: improving_def nth_append)

lemma improving_last:
  "improving (vs @ [v]) (length vs) \<longleftrightarrow> vs = [] \<or> v > Max (set vs)"
  by (simp add: improving_def)

lemma spec_counter_append:
  "i < length vs \<Longrightarrow> spec_counter (vs @ ws) i = spec_counter vs i"
  by (induction i) (simp_all add: improving_append)

lemma last_improving_le: "last_improving vs i \<le> i"
  by (induction i) (auto simp: le_Suc_eq)

lemma last_improving_improving: "improving vs (last_improving vs i)"
  by (induction i) (simp_all add: improving_0)

lemma last_improving_after:
  "last_improving vs i < k \<Longrightarrow> k \<le> i \<Longrightarrow> \<not> improving vs k"
proof (induction i)
  case 0
  then show ?case by simp
next
  case (Suc i)
  show ?case
  proof (cases "improving vs (Suc i)")
    case True
    with Suc.prems show ?thesis by simp
  next
    case False
    show ?thesis
    proof (cases "k = Suc i")
      case True
      with False show ?thesis by simp
    next
      case neq: False
      with Suc.prems \<open>\<not> improving vs (Suc i)\<close> have "last_improving vs i < k" "k \<le> i"
        by simp_all
      then show ?thesis by (rule Suc.IH)
    qed
  qed
qed

lemma spec_counter_since: "spec_counter vs i = i - last_improving vs i"
proof (induction i)
  case 0
  show ?case by simp
next
  case (Suc i)
  have "last_improving vs i \<le> i" by (rule last_improving_le)
  with Suc show ?case by (simp add: Suc_diff_le)
qed

text \<open>The state of a fresh controller after the calls \<open>vs\<close>.\<close>

lemma controller_after:
  "snd (add_values (LearningRateController_init wdr tr) vs) =
     \<lparr>data = vs,
      not_improved = (if vs = [] then 0 else spec_counter vs (length vs - 1)),
      weight_decay_range = wdr, terminate_range = tr,
      best_performance = (if vs = [] then - 10000000000 else Max (set vs))\<rparr>"
proof (induction vs rule: rev_induct)
  case Nil
  show ?case by (simp add: LearningRateController_init_def)
next
  case (snoc v vs)
  obtain rs c where run: "add_values (LearningRateController_init wdr tr) vs = (rs, c)"
    by (cases "add_values (LearningRateController_init wdr tr) vs")
  with snoc have c: "c = \<lparr>data = vs,
      not_improved = (if vs = [] then 0 else spec_counter vs (length vs - 1)),
      weight_decay_range = wdr, terminate_range = tr,
      best_performance = (if vs = [] then - 10000000000 else Max (set vs))\<rparr>"
    by simp
  show ?case
  proof (cases "vs = []")
    case True
    with run c show ?thesis
      by (simp add: add_values_snoc add_value_def Let_def)
  next
    case False
    then obtain n where n: "length vs = Suc n" by (cases vs) auto
    have sc: "spec_counter (vs @ [v]) n = spec_counter vs n"
      using n by (simp add: spec_counter_append)
    have imp: "improving (vs @ [v]) (Suc n) \<longleftrightarrow> v > Max (set vs)"
      using improving_last [of vs v] n False by simp
    have mx: "Max (insert v (set vs)) = (if v > Max (set vs) then v else Max (set vs))"
    proof -
      have "Max (insert v (set vs)) = max v (Max (set vs))"
        using False by (intro Max_insert) simp_all
      then show ?thesis by (simp only: max_def not_le [symmetric] if_not_P) auto
    qed
    from run c False n sc imp mx show ?thesis
      by (simp add: add_values_snoc add_value_def Let_def)
  qed
qed

lemma returns_after:
  "fst (add_values (LearningRateController_init wdr tr) vs) =
     map (spec_counter vs) [0..<length vs]"
proof (induction vs rule: rev_induct)
  case Nil
  show ?case by simp
next
  case (snoc v vs)
  let ?init = "LearningRateController_init wdr tr"
  obtain rs c where run: "add_values ?init vs = (rs, c)"
    by (cases "add_values ?init vs")
  obtain r c' where step: "add_value c v = (r, c')"
    by (cases "add_value c v")
  have full: "add_values ?init (vs @ [v]) = (rs @ [r], c')"
    using run step by (simp add: add_values_snoc)
  have "r = not_improved (snd (add_values ?init (vs @ [v])))"
    using step full by (auto simp: add_value_def Let_def)
  then have r: "r = spec_counter (vs @ [v]) (length vs)"
    by (simp add: controller_after)
  have "rs = map (spec_counter vs) [0..<length vs]"
    using snoc run by simp
  then have "rs = map (spec_counter (vs @ [v])) [0..<length vs]"
    by (simp add: spec_counter_append)
  with r full show ?case by simp
qed

text \<open>
  Claim C1. On a fresh controller, for every sequence of calls, the call number \<open>i\<close> of
  \<open>add_value\<close> returns the number of calls since the last improving call: there is a last
  improving call \<open>j \<le> i\<close>, no call after it up to \<open>i\<close> improves, and the value returned is
  \<open>i - j\<close>. It is also the counter that an improving call resets to 0 and any other call
  increments by 1.
\<close>

theorem add_value_counts_non_improving:
  "i < length vs \<Longrightarrow>
     fst (add_values (LearningRateController_init wdr tr) vs) ! i = i - last_improving vs i
   \<and> last_improving vs i \<le> i
   \<and> improving vs (last_improving vs i)
   \<and> (\<forall>k. last_improving vs i < k \<and> k \<le> i \<longrightarrow> \<not> improving vs k)
   \<and> fst (add_values (LearningRateController_init wdr tr) vs) ! i = spec_counter vs i
   \<and> (improving vs i \<longrightarrow> spec_counter vs i = 0)
   \<and> (\<not> improving vs i \<longrightarrow> spec_counter vs i = spec_counter vs (i - 1) + 1)"
proof -
  assume i: "i < length vs"
  have ret: "fst (add_values (LearningRateController_init wdr tr) vs) ! i = spec_counter vs i"
    using i by (simp add: returns_after)
  have reset: "improving vs i \<longrightarrow> spec_counter vs i = 0"
    by (cases i) simp_all
  have incr: "\<not> improving vs i \<longrightarrow> spec_counter vs i = spec_counter vs (i - 1) + 1"
    by (cases i) (simp_all add: improving_0)
  from ret reset incr show ?thesis
    by (auto simp: spec_counter_since last_improving_le last_improving_improving
        dest: last_improving_after)
qed

theorem add_value_counts_non_improving_witness:
  "(3::nat) < length [1, 3, 2, 2, 5 :: real]
   \<and> (4::nat) < length [1, 3, 2, 2, 5 :: real]
   \<and> fst (add_values LearningRateController_default [1, 3, 2, 2, 5]) ! 3 = 2
   \<and> fst (add_values LearningRateController_default [1, 3, 2, 2, 5]) ! 4 = 0
   \<and> last_improving [1, 3, 2, 2, 5] 3 = 1
   \<and> improving [1, 3, 2, 2, 5] 1
   \<and> \<not> improving [1, 3, 2, 2, 5] 2
   \<and> \<not> improving [1, 3, 2, 2, 5] 3
   \<and> improving [1, 3, 2, 2, 5] 4
   \<and> spec_counter [1, 3, 2, 2, 5] 3 = spec_counter [1, 3, 2, 2, 5] 2 + 1
   \<and> spec_counter [1, 3, 2, 2, 5] 4 = 0"
  using add_value_counts_non_improving [of 3 "[1, 3, 2, 2, 5]" 5 20]
    add_value_counts_non_improving [of 4 "[1, 3, 2, 2, 5]" 5 20]
  by (simp add: LearningRateController_default_def improving_def eval_nat_numeral)

text \<open>
  Claim C2. After a nonempty sequence of calls of \<open>add_value\<close> on a fresh controller,
  \<open>best_performance\<close> is the maximum of the values added and \<open>data\<close> is the list of the
  values in call order.
\<close>

theorem best_performance_is_max:
  "vs \<noteq> [] \<Longrightarrow>
     best_performance (snd (add_values (LearningRateController_init wdr tr) vs)) = Max (set vs)
   \<and> data (snd (add_values (LearningRateController_init wdr tr) vs)) = vs"
  by (simp add: controller_after)

theorem best_performance_is_max_witness:
  "[1/2, 7/10, 3/5 :: real] \<noteq> []
   \<and> best_performance (snd (add_values LearningRateController_default [1/2, 7/10, 3/5])) = 7/10
   \<and> data (snd (add_values LearningRateController_default [1/2, 7/10, 3/5])) = [1/2, 7/10, 3/5]"
  using best_performance_is_max [of "[1/2, 7/10, 3/5]" 5 20]
  by (simp add: LearningRateController_default_def)

section \<open>Validation and the checkpoint of the constituent classification script\<close>

lemma and_then_simps [simp]:
  "and_then (Normal s) f = f s"
  "and_then (Exited s) f = Exited s"
  "and_then (Raised e s) f = Raised e s"
  by (simp_all add: and_then_def)

lemma validate_state: "fst (validate env loader st) = st"
  by (simp add: validate_def Let_def split: prod.splits)

lemma validate_nonneg: "validate env loader st = (st', Inr a) \<Longrightarrow> 0 \<le> a"
  by (auto simp: validate_def Let_def split: prod.splits if_splits)

lemma dom_checkpoint_dict:
  "dom (checkpoint_dict st epoch step) =
     {''model'', ''weighing_params'', ''best_model'', ''best_weighing_params'', ''best_acc'',
      ''optimizer'', ''epoch'', ''step'', ''lr_controller'', ''cuda_rng_state''}"
  unfolding checkpoint_dict_def dom_map_of_conv_image_fst by auto

lemma checkpoint_dict_values:
  "checkpoint_dict st epoch step ''model'' = Some (Opaque (model st))"
  "checkpoint_dict st epoch step ''weighing_params'' = Some (Opaque (weighing_params st))"
  "checkpoint_dict st epoch step ''best_model'' = Some (opt_val (best_model st))"
  "checkpoint_dict st epoch step ''best_weighing_params'' = Some (opt_val (best_weighing_params st))"
  "checkpoint_dict st epoch step ''best_acc'' = Some (PyFloat (best_acc st))"
  "checkpoint_dict st epoch step ''optimizer'' = Some (Optim (optimizer st))"
  "checkpoint_dict st epoch step ''epoch'' = Some (PyInt (int epoch))"
  "checkpoint_dict st epoch step ''step'' = Some (PyInt (int step))"
  "checkpoint_dict st epoch step ''lr_controller'' = Some (Ctrl (lr_controller st))"
  "checkpoint_dict st epoch step ''cuda_rng_state'' = Some (Opaque (cuda_rng_state st))"
  by (simp_all add: checkpoint_dict_def)

lemma read_back:
  "read_items (checkpoint_dict st epoch step) checkpoint_reads st0 =
     Normal (st0\<lparr>model := model st, best_model := best_model st,
                best_weighing_params := best_weighing_params st, best_acc := best_acc st,
                optimizer := optimizer st, lr_controller := lr_controller st,
                cuda_rng_state := cuda_rng_state st, start_epoch := int epoch,
                epoch_step := int step, weighing_params := weighing_params st\<rparr>)"
  by (cases "best_model st"; cases "best_weighing_params st")
     (simp_all add: checkpoint_reads_def checkpoint_dict_values set_model_def set_best_model_def
      set_best_weighing_params_def set_best_acc_def set_optimizer_def set_lr_controller_def
      set_cuda_rng_state_def set_start_epoch_def set_epoch_step_def set_weighing_params_def
      opt_val_def)

section \<open>The training loop of the constituent classification script\<close>

lemma trained_append [simp]: "trained (xs @ ys) = trained xs @ trained ys"
  by (induction xs rule: trained.induct) simp_all

lemma validated_append [simp]: "validated (xs @ ys) = validated xs @ validated ys"
  by (induction xs rule: validated.induct) simp_all

lemma saved_append [simp]: "saved (xs @ ys) = saved xs @ saved ys"
  by (induction xs rule: saved.induct) simp_all

text \<open>Loops and relations between the state before and the outcome.\<close>

lemma epoch_loop_rel:
  assumes refl: "\<And>st. R st (Normal st)"
    and trans: "\<And>st st1 r. R st (Normal st1) \<Longrightarrow> R st1 r \<Longrightarrow> R st r"
    and step: "\<And>step b st. R st (train_batch env args epoch step b st)"
  shows "R st (epoch_loop env args epoch bs st)"
proof (induction bs arbitrary: st)
  case Nil
  show ?case by (simp add: refl)
next
  case (Cons sb bs)
  obtain step b where sb: "sb = (step, b)" by (cases sb)
  show ?case
  proof (cases "terminate st \<or> skip_batch st epoch step")
    case True
    then show ?thesis using sb Cons.IH [of st] by (auto simp: refl)
  next
    case False
    show ?thesis
    proof (cases "train_batch env args epoch step b st")
      case (Normal st1)
      with False sb trans [OF _ Cons.IH [of st1]] step [of st step b] show ?thesis by simp
    next
      case (Exited st1)
      with False sb step [of st step b] show ?thesis by simp
    next
      case (Raised e st1)
      with False sb step [of st step b] show ?thesis by simp
    qed
  qed
qed

lemma training_rel:
  assumes refl: "\<And>st. R st (Normal st)"
    and trans: "\<And>st st1 r. R st (Normal st1) \<Longrightarrow> R st1 r \<Longrightarrow> R st r"
    and step: "\<And>epoch step b st. R st (train_batch env args epoch step b st)"
  shows "R st (training env args es st)"
proof (induction es arbitrary: st)
  case Nil
  show ?case by (simp add: refl)
next
  case (Cons epoch es)
  have loop: "R st (epoch_loop env args epoch (enumerate 0 (train_loader env)) st)"
    by (rule epoch_loop_rel [of R, OF refl trans step])
  show ?case
  proof (cases "terminate st")
    case True
    then show ?thesis by (simp add: refl)
  next
    case False
    show ?thesis
    proof (cases "epoch_loop env args epoch (enumerate 0 (train_loader env)) st")
      case (Normal st1)
      with False loop trans [OF _ Cons.IH [of st1]] show ?thesis by simp
    next
      case (Exited st1)
      with False loop show ?thesis by simp
    next
      case (Raised e st1)
      with False loop show ?thesis by simp
    qed
  qed
qed

lemma trace_emit [simp]: "trace (emit es st) = trace st @ es"
  by (simp add: emit_def)

lemma state_of_and_then_Exited [simp]: "state_of (and_then r Exited) = state_of r"
  by (cases r) simp_all

lemma trace_optimize_batch:
  "trace (optimize_batch env epoch step b st) = trace st @ [Train_batch epoch step]"
  by (simp add: optimize_batch_def split: prod.splits)

lemma position_optimize_batch:
  "start_epoch (optimize_batch env epoch step b st) = start_epoch st"
  "epoch_step (optimize_batch env epoch step b st) = epoch_step st"
  by (simp_all add: optimize_batch_def emit_def split: prod.splits)

lemma best_acc_optimize_batch:
  "best_acc (optimize_batch env epoch step b st) = best_acc st"
  by (simp add: optimize_batch_def emit_def split: prod.splits)

text \<open>What one evaluation does to the trace, the position and the best accuracy.\<close>

lemma evaluate_cases:
  obtains (zero) "validate env (dev_loader env) st = (st, Inl ZeroDivisionError)"
      "evaluate env args epoch step st = Raised ZeroDivisionError st"
  | (failed) a st' where "validate env (dev_loader env) st = (st, Inr a)" "0 \<le> a"
      "evaluate env args epoch step st = Raised ZeroDivisionError st'"
      "trace st' = trace st @ Validation (actual_step env epoch step) a
                     # (if a > best_acc st then [New_best a] else [])"
      "best_acc st' = max (best_acc st) a"
      "start_epoch st' = start_epoch st" "epoch_step st' = epoch_step st"
  | (completed) a st' es where "validate env (dev_loader env) st = (st, Inr a)" "0 \<le> a"
      "evaluate env args epoch step st = Normal st' \<or> evaluate env args epoch step st = Exited st'"
      "trace st' = trace st @ Validation (actual_step env epoch step) a # es"
      "validated es = []" "trained es = []"
      "saved es = [(ckpt_path args, actual_step env epoch step)]"
      "\<forall>ev \<in> set es. \<not> is_startup_event ev"
      "best_acc st' = max (best_acc st) a"
      "start_epoch st' = start_epoch st" "epoch_step st' = epoch_step st"
proof -
  obtain st1 res where v: "validate env (dev_loader env) st = (st1, res)"
    by (cases "validate env (dev_loader env) st")
  then have st1: "st1 = st" using validate_state [of env "dev_loader env" st] by simp
  show thesis
  proof (cases res)
    case (Inl e)
    with v st1 have "e = ZeroDivisionError"
      by (auto simp: validate_def Let_def split: prod.splits if_splits)
    with v st1 Inl show thesis
      by (intro zero) (simp_all add: evaluate_def)
  next
    case (Inr a)
    with v st1 have a: "0 \<le> a" using validate_nonneg [of env "dev_loader env" st st a] by simp
    let ?r = "evaluate env args epoch step st"
    from v st1 Inr have
      "(\<exists>st'. ?r = Raised ZeroDivisionError st'
          \<and> trace st' = trace st @ Validation (actual_step env epoch step) a
                     # (if a > best_acc st then [New_best a] else [])
          \<and> best_acc st' = max (best_acc st) a
          \<and> start_epoch st' = start_epoch st \<and> epoch_step st' = epoch_step st)
       \<or> (\<exists>st' es. (?r = Normal st' \<or> ?r = Exited st')
          \<and> trace st' = trace st @ Validation (actual_step env epoch step) a # es
          \<and> validated es = [] \<and> trained es = []
          \<and> saved es = [(ckpt_path args, actual_step env epoch step)]
          \<and> (\<forall>ev \<in> set es. \<not> is_startup_event ev)
          \<and> best_acc st' = max (best_acc st) a
          \<and> start_epoch st' = start_epoch st \<and> epoch_step st' = epoch_step st)"
      by (auto simp: evaluate_def update_validation_result_def update_best_def
            save_checkpoint_def time_check_def emit_def add_value_def Let_def max_def
          split: prod.splits if_splits)
    with v st1 Inr a show thesis
      apply (elim disjE exE conjE)
      subgoal for st' by (rule failed [of a st']) simp_all
      subgoal for st' es by (rule completed [of a st' es]) simp_all
      subgoal for st' es by (rule completed [of a st' es]) simp_all
      done
  qed
qed

lemma keeps_position_refl: "keeps_position st (Normal st)"
  by (simp add: keeps_position_def)

lemma keeps_position_trans:
  "keeps_position st (Normal st1) \<Longrightarrow> keeps_position st1 r \<Longrightarrow> keeps_position st r"
  by (simp add: keeps_position_def)



lemma tracks_best_refl: "tracks_best st (Normal st)"
  by (simp add: tracks_best_def)

lemma Max_insert_Max:
  assumes "finite A" "finite B"
  shows "Max (insert (Max (insert (a::real) A)) B) = Max (insert a (A \<union> B))"
proof -
  have "Max (insert a (A \<union> B)) = Max (insert a A \<union> insert (Max (insert a A)) B)"
  proof (rule antisym)
    show "Max (insert a (A \<union> B)) \<le> Max (insert a A \<union> insert (Max (insert a A)) B)"
      using assms by (intro Max_mono) auto
    show "Max (insert a A \<union> insert (Max (insert a A)) B) \<le> Max (insert a (A \<union> B))"
      using assms by (subst Max_le_iff) (auto intro: Max_ge)
  qed
  also have "\<dots> = max (Max (insert a A)) (Max (insert (Max (insert a A)) B))"
    using assms by (intro Max_Un) auto
  also have "\<dots> = Max (insert (Max (insert a A)) B)"
    using assms by (intro max_absorb2 Max_ge) auto
  finally show ?thesis by simp
qed

lemma tracks_best_trans:
  assumes "tracks_best st (Normal st1)" "tracks_best st1 r"
  shows "tracks_best st r"
proof -
  from assms(1) obtain es1 where 1: "trace st1 = trace st @ es1"
    "best_acc st1 = Max (insert (best_acc st) (snd ` set (validated es1)))"
    "\<forall>m \<in> snd ` set (validated es1). 0 \<le> m"
    by (auto simp: tracks_best_def)
  from assms(2) obtain es2 where 2: "trace (state_of r) = trace st1 @ es2"
    "best_acc (state_of r) = Max (insert (best_acc st1) (snd ` set (validated es2)))"
    "\<forall>m \<in> snd ` set (validated es2). 0 \<le> m"
    by (auto simp: tracks_best_def)
  have "best_acc (state_of r) =
      Max (insert (best_acc st) (snd ` set (validated es1) \<union> snd ` set (validated es2)))"
    unfolding 2(2) 1(2) by (rule Max_insert_Max) simp_all
  with 1 2 show ?thesis
    unfolding tracks_best_def by (intro exI [of _ "es1 @ es2"]) (auto simp: image_Un)
qed



text \<open>One batch.\<close>

lemma train_batch_cases:
  obtains (log_zero) "log_step args = 0"
      "train_batch env args epoch step b st =
         Raised ZeroDivisionError (optimize_batch env epoch step b st)"
  | (eval_zero) st2 es where "eval_step args = 0"
      "train_batch env args epoch step b st = Raised ZeroDivisionError st2"
      "trace st2 = trace st @ Train_batch epoch step # es"
      "validated es = []" "trained es = []" "saved es = []"
      "\<forall>ev \<in> set es. \<not> is_startup_event ev"
      "best_acc st2 = best_acc st" "start_epoch st2 = start_epoch st" "epoch_step st2 = epoch_step st"
  | (no_eval) st2 es where "eval_step args \<noteq> 0"
      "int (actual_step env epoch step) mod eval_step args \<noteq> 0"
      "train_batch env args epoch step b st = Normal st2"
      "trace st2 = trace st @ Train_batch epoch step # es"
      "validated es = []" "trained es = []" "saved es = []"
      "\<forall>ev \<in> set es. \<not> is_startup_event ev"
      "best_acc st2 = best_acc st" "start_epoch st2 = start_epoch st" "epoch_step st2 = epoch_step st"
  | (eval) st2 es where "eval_step args \<noteq> 0"
      "int (actual_step env epoch step) mod eval_step args = 0"
      "train_batch env args epoch step b st = evaluate env args epoch step st2"
      "trace st2 = trace st @ Train_batch epoch step # es"
      "validated es = []" "trained es = []" "saved es = []"
      "\<forall>ev \<in> set es. \<not> is_startup_event ev"
      "best_acc st2 = best_acc st" "start_epoch st2 = start_epoch st" "epoch_step st2 = epoch_step st"
proof -
  let ?st1 = "optimize_batch env epoch step b st"
  let ?n = "actual_step env epoch step"
  let ?st2 = "if int ?n mod log_step args = 0 then emit [Log_train epoch ?n] ?st1 else ?st1"
  let ?es = "if int ?n mod log_step args = 0 then [Log_train epoch ?n] else []"
  have st2: "trace ?st2 = trace st @ Train_batch epoch step # ?es"
    "validated ?es = []" "trained ?es = []" "saved ?es = []"
    "\<forall>ev \<in> set ?es. \<not> is_startup_event ev"
    "best_acc ?st2 = best_acc st" "start_epoch ?st2 = start_epoch st"
    "epoch_step ?st2 = epoch_step st"
    by (simp_all add: trace_optimize_batch position_optimize_batch best_acc_optimize_batch emit_def)
  show thesis
  proof (cases "log_step args = 0")
    case True
    then show thesis by (intro log_zero) (simp_all add: train_batch_def Let_def)
  next
    case log: False
    show thesis
    proof (cases "eval_step args = 0")
      case True
      with log have "train_batch env args epoch step b st = Raised ZeroDivisionError ?st2"
        by (simp add: train_batch_def Let_def)
      with True st2 show thesis by (intro eval_zero [of ?st2 ?es]) blast+
    next
      case ev: False
      show thesis
      proof (cases "int ?n mod eval_step args = 0")
        case True
        with log ev have "train_batch env args epoch step b st = evaluate env args epoch step ?st2"
          by (simp add: train_batch_def Let_def)
        with True ev st2 show thesis by (intro eval [of ?st2 ?es]) blast+
      next
        case False
        with log ev have "train_batch env args epoch step b st = Normal ?st2"
          by (simp add: train_batch_def Let_def)
        with False ev st2 show thesis by (intro no_eval [of ?st2 ?es]) blast+
      qed
    qed
  qed
qed

lemma train_batch_keeps_position: "keeps_position st (train_batch env args epoch step b st)"
proof (cases rule: train_batch_cases [of args env epoch step b st])
  case log_zero
  then show ?thesis by (simp add: keeps_position_def position_optimize_batch)
next
  case (eval_zero st2 es)
  then show ?thesis by (simp add: keeps_position_def)
next
  case (no_eval st2 es)
  then show ?thesis by (simp add: keeps_position_def)
next
  case (eval st2 es)
  show ?thesis
  proof (cases rule: evaluate_cases [of env st2 args epoch step])
    case zero
    with eval show ?thesis by (simp add: keeps_position_def)
  next
    case (failed a st')
    with eval show ?thesis by (simp add: keeps_position_def)
  next
    case (completed a st' es')
    with eval show ?thesis by (auto simp: keeps_position_def)
  qed
qed


lemma train_batch_tracks_best: "tracks_best st (train_batch env args epoch step b st)"
proof (cases rule: train_batch_cases [of args env epoch step b st])
  case log_zero
  then show ?thesis
    by (simp add: tracks_best_def trace_optimize_batch best_acc_optimize_batch)
next
  case (eval_zero st2 es)
  then show ?thesis by (simp add: tracks_best_def)
next
  case (no_eval st2 es)
  then show ?thesis by (simp add: tracks_best_def)
next
  case (eval st2 es)
  show ?thesis
  proof (cases rule: evaluate_cases [of env st2 args epoch step])
    case zero
    with eval show ?thesis by (simp add: tracks_best_def)
  next
    case (failed a st')
    let ?es = "Train_batch epoch step # es @ Validation (actual_step env epoch step) a
            # (if a > best_acc st2 then [New_best a] else [])"
    have v: "validated ?es = [(actual_step env epoch step, a)]"
      using eval by simp
    have t: "trace (state_of (train_batch env args epoch step b st)) = trace st @ ?es"
      using eval failed by simp
    have b: "best_acc (state_of (train_batch env args epoch step b st)) = max a (best_acc st)"
      using eval failed by (simp add: max.commute)
    show ?thesis
      unfolding tracks_best_def
    proof (intro exI [of _ ?es] conjI)
      show "trace (state_of (train_batch env args epoch step b st)) = trace st @ ?es" by (rule t)
      show "best_acc (state_of (train_batch env args epoch step b st)) =
          Max (insert (best_acc st) (snd ` set (validated ?es)))"
        unfolding v b by simp
      show "\<forall>m \<in> snd ` set (validated ?es). 0 \<le> m"
        unfolding v using failed by simp
    qed
  next
    case (completed a st' es')
    let ?es = "Train_batch epoch step # es @ Validation (actual_step env epoch step) a # es'"
    have v: "validated ?es = [(actual_step env epoch step, a)]"
      using eval completed by simp
    have t: "trace (state_of (train_batch env args epoch step b st)) = trace st @ ?es"
      using eval completed by auto
    have b: "best_acc (state_of (train_batch env args epoch step b st)) = max a (best_acc st)"
      using eval completed by (auto simp: max.commute)
    show ?thesis
      unfolding tracks_best_def
    proof (intro exI [of _ ?es] conjI)
      show "trace (state_of (train_batch env args epoch step b st)) = trace st @ ?es" by (rule t)
      show "best_acc (state_of (train_batch env args epoch step b st)) =
          Max (insert (best_acc st) (snd ` set (validated ?es)))"
        unfolding v b by simp
      show "\<forall>m \<in> snd ` set (validated ?es). 0 \<le> m"
        unfolding v using completed by simp
    qed
  qed
qed


text \<open>The two loops.\<close>

lemma training_keeps_position: "keeps_position st (training env args es st)"
  by (rule training_rel [of keeps_position, OF keeps_position_refl keeps_position_trans
        train_batch_keeps_position])


lemma training_tracks_best: "tracks_best st (training env args es st)"
  by (rule training_rel [of tracks_best, OF tracks_best_refl tracks_best_trans
        train_batch_tracks_best])


lemma epoch_loop_keeps_position: "keeps_position st (epoch_loop env args epoch bs st)"
  by (rule epoch_loop_rel [of keeps_position, OF keeps_position_refl keeps_position_trans
        train_batch_keeps_position])


lemma training_terminated: "terminate st \<Longrightarrow> training env args es st = Normal st"
  by (cases es) auto

lemma train_batch_trained:
  "trained (trace (state_of (train_batch env args epoch step b st))) =
     trained (trace st) @ [(epoch, step)]"
proof (cases rule: train_batch_cases [of args env epoch step b st])
  case log_zero
  then show ?thesis by (simp add: trace_optimize_batch)
next
  case (eval_zero st2 es)
  then show ?thesis by simp
next
  case (no_eval st2 es)
  then show ?thesis by simp
next
  case (eval st2 es)
  show ?thesis
  proof (cases rule: evaluate_cases [of env st2 args epoch step])
    case zero
    with eval show ?thesis by simp
  next
    case (failed a st')
    with eval show ?thesis by simp
  next
    case (completed a st' es')
    with eval show ?thesis by auto
  qed
qed

lemma skip_batch_cong:
  "keeps_position st r \<Longrightarrow> skip_batch (state_of r) epoch step = skip_batch st epoch step"
  by (simp add: keeps_position_def skip_batch_def)

lemma epoch_loop_trained:
  "\<exists>ps rest. trained (trace (state_of (epoch_loop env args epoch bs st))) = trained (trace st) @ ps
     \<and> filter (\<lambda>p. \<not> skip_batch st (fst p) (snd p)) (map (\<lambda>sb. (epoch, fst sb)) bs) = ps @ rest
     \<and> (\<forall>st'. epoch_loop env args epoch bs st = Normal st' \<and> \<not> terminate st' \<longrightarrow> rest = [])"
proof (induction bs arbitrary: st)
  case Nil
  show ?case by simp
next
  case (Cons sb bs)
  obtain step b where sb: "sb = (step, b)" by (cases sb)
  let ?P = "\<lambda>st p. \<not> skip_batch st (fst p) (snd p)"
  show ?case
  proof (cases "terminate st")
    case True
    with sb show ?thesis by auto
  next
    case nt: False
    show ?thesis
    proof (cases "skip_batch st epoch step")
      case True
      with nt sb Cons.IH [of st] show ?thesis by simp
    next
      case False
      let ?r = "train_batch env args epoch step b st"
      have tr: "trained (trace (state_of ?r)) = trained (trace st) @ [(epoch, step)]"
        by (rule train_batch_trained)
      have loop: "epoch_loop env args epoch (sb # bs) st = and_then ?r (epoch_loop env args epoch bs)"
        using nt False sb by simp
      show ?thesis
      proof (cases ?r)
        case (Normal st1)
        have "keeps_position st ?r" by (rule train_batch_keeps_position)
        with Normal have same: "\<And>e s. skip_batch st1 e s = skip_batch st e s"
          using skip_batch_cong [of st ?r] by simp
        from Cons.IH [of st1] obtain ps rest where
          ih: "trained (trace (state_of (epoch_loop env args epoch bs st1))) = trained (trace st1) @ ps"
          "filter (?P st1) (map (\<lambda>sb. (epoch, fst sb)) bs) = ps @ rest"
          "\<forall>st'. epoch_loop env args epoch bs st1 = Normal st' \<and> \<not> terminate st' \<longrightarrow> rest = []"
          by blast
        show ?thesis
        proof (rule exI [of _ "(epoch, step) # ps"], rule exI [of _ rest], intro conjI)
          show "trained (trace (state_of (epoch_loop env args epoch (sb # bs) st))) =
              trained (trace st) @ (epoch, step) # ps"
            using loop Normal ih(1) tr by simp
          show "filter (?P st) (map (\<lambda>sb. (epoch, fst sb)) (sb # bs)) = ((epoch, step) # ps) @ rest"
            using ih(2) False sb same by simp
          show "\<forall>st'. epoch_loop env args epoch (sb # bs) st = Normal st' \<and> \<not> terminate st'
              \<longrightarrow> rest = []"
            using loop Normal ih(3) by simp
        qed
      next
        case (Exited st1)
        show ?thesis
        proof (rule exI [of _ "[(epoch, step)]"], rule exI [of _ "filter (?P st) (map (\<lambda>sb. (epoch, fst sb)) bs)"], intro conjI)
          show "trained (trace (state_of (epoch_loop env args epoch (sb # bs) st))) =
              trained (trace st) @ [(epoch, step)]"
            using loop Exited tr by simp
          show "filter (?P st) (map (\<lambda>sb. (epoch, fst sb)) (sb # bs)) =
              [(epoch, step)] @ filter (?P st) (map (\<lambda>sb. (epoch, fst sb)) bs)"
            using False sb by simp
          show "\<forall>st'. epoch_loop env args epoch (sb # bs) st = Normal st' \<and> \<not> terminate st'
              \<longrightarrow> filter (?P st) (map (\<lambda>sb. (epoch, fst sb)) bs) = []"
            using loop Exited by simp
        qed
      next
        case (Raised e st1)
        show ?thesis
        proof (rule exI [of _ "[(epoch, step)]"], rule exI [of _ "filter (?P st) (map (\<lambda>sb. (epoch, fst sb)) bs)"], intro conjI)
          show "trained (trace (state_of (epoch_loop env args epoch (sb # bs) st))) =
              trained (trace st) @ [(epoch, step)]"
            using loop Raised tr by simp
          show "filter (?P st) (map (\<lambda>sb. (epoch, fst sb)) (sb # bs)) =
              [(epoch, step)] @ filter (?P st) (map (\<lambda>sb. (epoch, fst sb)) bs)"
            using False sb by simp
          show "\<forall>st'. epoch_loop env args epoch (sb # bs) st = Normal st' \<and> \<not> terminate st'
              \<longrightarrow> filter (?P st) (map (\<lambda>sb. (epoch, fst sb)) bs) = []"
            using loop Raised by simp
        qed
      qed
    qed
  qed
qed

lemma map_zip_Pair:
  "length ns = length xs \<Longrightarrow> map (\<lambda>sb. (epoch, fst sb)) (zip ns xs) = map (Pair epoch) ns"
  by (induction ns xs rule: list_induct2) simp_all

lemma map_enumerate_Pair:
  "map (\<lambda>sb. (epoch, fst sb)) (enumerate n xs) = map (Pair epoch) [n..<n + length xs]"
  unfolding enumerate_eq_zip by (rule map_zip_Pair) simp

lemma map_fst_enumerate_Pair:
  "map (\<lambda>sb. (epoch, fst sb)) (enumerate 0 xs) = map (Pair epoch) [0..<length xs]"
  using map_enumerate_Pair [of epoch 0 xs] by simp

lemma training_trained:
  "\<exists>ps rest. trained (trace (state_of (training env args es st))) = trained (trace st) @ ps
     \<and> filter (\<lambda>p. \<not> skip_batch st (fst p) (snd p)) (all_batches es (length (train_loader env)))
         = ps @ rest
     \<and> (\<forall>st'. training env args es st = Normal st' \<and> \<not> terminate st' \<longrightarrow> rest = [])"
proof (induction es arbitrary: st)
  case Nil
  show ?case by (simp add: all_batches_def)
next
  case (Cons epoch es)
  let ?P = "\<lambda>st p. \<not> skip_batch st (fst p) (snd p)"
  let ?n = "length (train_loader env)"
  let ?r = "epoch_loop env args epoch (enumerate 0 (train_loader env)) st"
  have split: "filter (?P st) (all_batches (epoch # es) ?n) =
      filter (?P st) (map (Pair epoch) [0..<?n]) @ filter (?P st) (all_batches es ?n)"
    by (simp add: all_batches_def)
  show ?case
  proof (cases "terminate st")
    case True
    then show ?thesis by auto
  next
    case nt: False
    then have loop: "training env args (epoch # es) st = and_then ?r (training env args es)"
      by simp
    from epoch_loop_trained [of env args epoch "enumerate 0 (train_loader env)" st]
    obtain ps1 rest1 where
      1: "trained (trace (state_of ?r)) = trained (trace st) @ ps1"
      "filter (?P st) (map (Pair epoch) [0..<?n]) = ps1 @ rest1"
      "\<forall>st'. ?r = Normal st' \<and> \<not> terminate st' \<longrightarrow> rest1 = []"
      unfolding map_fst_enumerate_Pair by blast
    show ?thesis
    proof (cases ?r)
      case (Normal st1)
      have "keeps_position st ?r" by (rule epoch_loop_keeps_position)
      with Normal have same: "\<And>e s. skip_batch st1 e s = skip_batch st e s"
        using skip_batch_cong [of st ?r] by simp
      from Cons.IH [of st1] obtain ps rest where
        ih: "trained (trace (state_of (training env args es st1))) = trained (trace st1) @ ps"
        "filter (?P st1) (all_batches es ?n) = ps @ rest"
        "\<forall>st'. training env args es st1 = Normal st' \<and> \<not> terminate st' \<longrightarrow> rest = []"
        by blast
      show ?thesis
      proof (cases "terminate st1")
        case True
        then have stop: "training env args es st1 = Normal st1" by (rule training_terminated)
        show ?thesis
        proof (rule exI [of _ ps1], rule exI [of _ "rest1 @ filter (?P st) (all_batches es ?n)"], intro conjI)
          show "trained (trace (state_of (training env args (epoch # es) st))) =
              trained (trace st) @ ps1"
            using loop Normal stop 1(1) by simp
          show "filter (?P st) (all_batches (epoch # es) ?n) =
              ps1 @ rest1 @ filter (?P st) (all_batches es ?n)"
            using split 1(2) by simp
          show "\<forall>st'. training env args (epoch # es) st = Normal st' \<and> \<not> terminate st'
              \<longrightarrow> rest1 @ filter (?P st) (all_batches es ?n) = []"
            using loop Normal stop True by simp
        qed
      next
        case False
        with 1(3) Normal have r1: "rest1 = []" by simp
        show ?thesis
        proof (rule exI [of _ "ps1 @ ps"], rule exI [of _ rest], intro conjI)
          show "trained (trace (state_of (training env args (epoch # es) st))) =
              trained (trace st) @ ps1 @ ps"
            using loop Normal ih(1) 1(1) by simp
          show "filter (?P st) (all_batches (epoch # es) ?n) = (ps1 @ ps) @ rest"
            using split 1(2) r1 ih(2) same by simp
          show "\<forall>st'. training env args (epoch # es) st = Normal st' \<and> \<not> terminate st'
              \<longrightarrow> rest = []"
            using loop Normal ih(3) by simp
        qed
      qed
    next
      case (Exited st1)
      show ?thesis
      proof (rule exI [of _ ps1], rule exI [of _ "rest1 @ filter (?P st) (all_batches es ?n)"], intro conjI)
        show "trained (trace (state_of (training env args (epoch # es) st))) =
            trained (trace st) @ ps1"
          using loop Exited 1(1) by simp
        show "filter (?P st) (all_batches (epoch # es) ?n) =
            ps1 @ rest1 @ filter (?P st) (all_batches es ?n)"
          using split 1(2) by simp
        show "\<forall>st'. training env args (epoch # es) st = Normal st' \<and> \<not> terminate st'
            \<longrightarrow> rest1 @ filter (?P st) (all_batches es ?n) = []"
          using loop Exited by simp
      qed
    next
      case (Raised e st1)
      show ?thesis
      proof (rule exI [of _ ps1], rule exI [of _ "rest1 @ filter (?P st) (all_batches es ?n)"], intro conjI)
        show "trained (trace (state_of (training env args (epoch # es) st))) =
            trained (trace st) @ ps1"
          using loop Raised 1(1) by simp
        show "filter (?P st) (all_batches (epoch # es) ?n) =
            ps1 @ rest1 @ filter (?P st) (all_batches es ?n)"
          using split 1(2) by simp
        show "\<forall>st'. training env args (epoch # es) st = Normal st' \<and> \<not> terminate st'
            \<longrightarrow> rest1 @ filter (?P st) (all_batches es ?n) = []"
          using loop Raised by simp
      qed
    qed
  qed
qed

subsection \<open>Thresholds of the controller at an evaluation\<close>


lemma time_check_simps [simp]:
  "\<not> is_raised (time_check env args n st)"
  "terminate (state_of (time_check env args n st)) = terminate st"
  "optimizer (state_of (time_check env args n st)) = optimizer st"
  by (simp_all add: time_check_def emit_def)

lemma save_checkpoint_simps [simp]:
  "terminate (save_checkpoint env args epoch step st) = terminate st"
  "optimizer (save_checkpoint env args epoch step st) = optimizer st"
  by (simp_all add: save_checkpoint_def emit_def)

lemma update_best_simps [simp]:
  "terminate (update_best a st) = terminate st"
  "optimizer (update_best a st) = optimizer st"
  "lr_controller (update_best a st) = lr_controller st"
  by (simp_all add: update_best_def emit_def)

lemma emit_simps [simp]:
  "terminate (emit es st) = terminate st"
  "optimizer (emit es st) = optimizer st"
  "lr_controller (emit es st) = lr_controller st"
  by (simp_all add: emit_def)








subsection \<open>Reading the checkpoint and the final test\<close>

lemma read_items_keeps:
  assumes "\<And>k f v st. (k, f) \<in> set rs \<Longrightarrow> g (state_of (f v st)) = g st"
  shows "g (state_of (read_items d rs st)) = g st"
  using assms
proof (induction rs arbitrary: st)
  case Nil
  show ?case by simp
next
  case (Cons kf rs)
  obtain k f where kf: "kf = (k, f)" by (cases kf)
  show ?case
  proof (cases "d k")
    case None
    with kf show ?thesis by simp
  next
    case (Some v)
    have f: "g (state_of (f v st)) = g st" using Cons.prems [of k f v st] kf by simp
    have rest: "g (state_of (read_items d rs s)) = g s" for s
    proof (rule Cons.IH)
      fix k' f' v' s'
      assume "(k', f') \<in> set rs"
      then have "(k', f') \<in> set (kf # rs)" by simp
      then show "g (state_of (f' v' s')) = g s'" by (rule Cons.prems)
    qed
    show ?thesis
    proof (cases "f v st")
      case (Normal s)
      with kf Some f rest [of s] show ?thesis by simp
    next
      case (Exited s)
      with kf Some f show ?thesis by simp
    next
      case (Raised e s)
      with kf Some f show ?thesis by simp
    qed
  qed
qed


lemma checkpoint_reads_files:
  "files (state_of (read_items d checkpoint_reads st)) = files st"
  by (rule read_items_keeps)
     (auto simp: checkpoint_reads_def set_model_def set_best_model_def
        set_best_weighing_params_def set_best_acc_def set_optimizer_def set_lr_controller_def
        set_cuda_rng_state_def set_start_epoch_def set_epoch_step_def set_weighing_params_def
      split: pyval.splits)



lemma load_checkpoint_absent:
  "files st (ckpt_path args) = None \<Longrightarrow> load_checkpoint env args st = Normal st"
  by (simp add: load_checkpoint_def)







subsection \<open>The whole script\<close>

lemma initialize_ok:
  "model_path_exists env \<Longrightarrow> label_dict_size env = 2 \<Longrightarrow>
     initialize env args st = Normal (emit startup_events st)"
  by (simp add: initialize_def emit_def startup_events_def Let_def)

lemma initialize_bad_path:
  "\<not> model_path_exists env \<Longrightarrow>
     initialize env args st = Raised (FileNotFoundError (args_save_path args)) st"
  by (simp add: initialize_def)

lemma main_ok:
  assumes "model_path_exists env" "label_dict_size env = 2"
  shows "main env args fs =
     and_then (load_checkpoint env args (emit startup_events (initial_state env args fs)))
       (\<lambda>st. and_then (training env args [0..<nat (epochs args)] st) (test_best env))"
  using assms by (simp add: main_def initialize_ok)







section \<open>The training loop of the coreference script\<close>

lemma c_trained_append [simp]: "c_trained (xs @ ys) = c_trained xs @ c_trained ys"
  by (induction xs rule: c_trained.induct) simp_all

lemma c_validated_append [simp]: "c_validated (xs @ ys) = c_validated xs @ c_validated ys"
  by (induction xs rule: c_validated.induct) simp_all

lemma c_trace_emit [simp]: "c_trace (c_emit es st) = c_trace st @ es"
  by (simp add: c_emit_def)

lemma c_emit_fields [simp]:
  "steps_done (c_emit es st) = steps_done st"
  "max_f1 (c_emit es st) = max_f1 st"
  "c_files (c_emit es st) = c_files st"
  by (simp_all add: c_emit_def)

lemma f_score_nonneg: "0 \<le> f_score cs"
proof -
  obtain tp tn fp fn where cs: "cs = (tp, tn, fp, fn)" by (cases cs) auto
  have e: "0 < eps" by (simp add: eps_def)
  have r: "0 \<le> real tp / (real tp + real fn + eps)" using e by simp
  have p: "0 \<le> real tp / (real tp + real fp + eps)" using e by simp
  show ?thesis
    unfolding cs f_score_def using r p e by (simp add: Let_def)
qed

lemma eval_f1_nonneg: "0 \<le> eval_f1 env m it"
  by (simp add: eval_f1_def f_score_nonneg)

text \<open>One evaluation: the fields and the trace after it.\<close>

lemma save_model_fields [simp]:
  "steps_done (save_model st n f p) = steps_done st"
  "max_f1 (save_model st n f p) = max_f1 st"
  "c_trace (save_model st n f p) = c_trace st @ [Model_saved p]"
  by (simp_all add: save_model_def c_emit_def)

lemma coref_evaluate_fields:
  "steps_done (coref_evaluate env md bd st) = steps_done st"
  "max_f1 (coref_evaluate env md bd st) = max (max_f1 st) (eval_f1 env (c_model st) (c_val_iter env))"
  "c_trace (coref_evaluate env md bd st) =
     c_trace st @ Val_f1 (steps_done st) (eval_f1 env (c_model st) (c_val_iter env))
       # (if eval_f1 env (c_model st) (c_val_iter env) > max_f1 st
          then [Max_f1 (eval_f1 env (c_model st) (c_val_iter env)),
                Model_saved (path_join bd ''model.pt'')]
          else [])
       @ [Model_saved (path_join md ''model.pt'')]"
  by (simp_all add: coref_evaluate_def Let_def c_emit_def max_def split: prod.splits)

lemma train_step_cases:
  obtains (plain) "(steps_done st + 1) mod EVAL_STEPS \<noteq> 0"
      "c_trace (train_step env md bd b st) = c_trace st @ [Train_step (steps_done st + 1)]"
      "max_f1 (train_step env md bd b st) = max_f1 st"
      "steps_done (train_step env md bd b st) = steps_done st + 1"
  | (evaluated) f es where "(steps_done st + 1) mod EVAL_STEPS = 0" "0 \<le> f"
      "c_trace (train_step env md bd b st) =
         c_trace st @ Train_step (steps_done st + 1) # Val_f1 (steps_done st + 1) f
           # es @ [Model_saved (path_join md ''model.pt'')]"
      "c_validated es = []" "c_trained es = []"
      "max_f1 (train_step env md bd b st) = max (max_f1 st) f"
      "steps_done (train_step env md bd b st) = steps_done st + 1"
proof -
  obtain m os tune r where
    opt: "c_optimize env b (c_model st, c_optimizer st, c_optimizer_tune st, c_rng_state st) =
      (m, os, tune, r)"
    by (cases "c_optimize env b (c_model st, c_optimizer st, c_optimizer_tune st, c_rng_state st)")
  let ?st1 = "c_emit [Train_step (steps_done st + 1)]
      (st\<lparr>c_model := m, c_optimizer := (c_optimizer st)\<lparr>opt_state := os\<rparr>,
          c_optimizer_tune := tune, c_rng_state := r, steps_done := steps_done st + 1\<rparr>)"
  have st1: "steps_done ?st1 = steps_done st + 1" "max_f1 ?st1 = max_f1 st"
    "c_trace ?st1 = c_trace st @ [Train_step (steps_done st + 1)]"
    by (simp_all add: c_emit_def)
  have step: "train_step env md bd b st =
      (if steps_done ?st1 mod EVAL_STEPS = 0 then coref_evaluate env md bd ?st1 else ?st1)"
    using opt by (simp add: train_step_def Let_def)
  show thesis
  proof (cases "(steps_done st + 1) mod EVAL_STEPS = 0")
    case False
    with step st1 show thesis by (intro plain) simp_all
  next
    case True
    let ?f = "eval_f1 env (c_model ?st1) (c_val_iter env)"
    let ?es = "if ?f > max_f1 ?st1 then [Max_f1 ?f, Model_saved (path_join bd ''model.pt'')] else []"
    from True step st1 have eq: "train_step env md bd b st = coref_evaluate env md bd ?st1"
      by simp
    show thesis
    proof (rule evaluated [of ?f ?es])
      show "(steps_done st + 1) mod EVAL_STEPS = 0" by (rule True)
      show "0 \<le> ?f" by (rule eval_f1_nonneg)
      show "c_trace (train_step env md bd b st) =
         c_trace st @ Train_step (steps_done st + 1) # Val_f1 (steps_done st + 1) ?f
           # ?es @ [Model_saved (path_join md ''model.pt'')]"
        unfolding eq coref_evaluate_fields st1 by simp
      show "c_validated ?es = []" "c_trained ?es = []" by simp_all
      show "max_f1 (train_step env md bd b st) = max (max_f1 st) ?f"
        unfolding eq coref_evaluate_fields st1 by simp
      show "steps_done (train_step env md bd b st) = steps_done st + 1"
        unfolding eq coref_evaluate_fields st1 by simp
    qed
  qed
qed

lemma c_tracks_best_refl: "c_tracks_best st st"
  by (simp add: c_tracks_best_def)

lemma c_tracks_best_trans:
  assumes "c_tracks_best st st1" "c_tracks_best st1 st2"
  shows "c_tracks_best st st2"
proof -
  from assms(1) obtain es1 where 1: "c_trace st1 = c_trace st @ es1"
    "max_f1 st1 = Max (insert (max_f1 st) (snd ` set (c_validated es1)))"
    "\<forall>m \<in> snd ` set (c_validated es1). 0 \<le> m"
    unfolding c_tracks_best_def by blast
  from assms(2) obtain es2 where 2: "c_trace st2 = c_trace st1 @ es2"
    "max_f1 st2 = Max (insert (max_f1 st1) (snd ` set (c_validated es2)))"
    "\<forall>m \<in> snd ` set (c_validated es2). 0 \<le> m"
    unfolding c_tracks_best_def by blast
  have "max_f1 st2 =
      Max (insert (max_f1 st) (snd ` set (c_validated es1) \<union> snd ` set (c_validated es2)))"
    unfolding 2(2) 1(2) by (rule Max_insert_Max) simp_all
  with 1 2 show ?thesis
    unfolding c_tracks_best_def by (intro exI [of _ "es1 @ es2"]) (auto simp: image_Un)
qed

lemma c_tracks_best_emit:
  "c_validated es = [] \<Longrightarrow> c_tracks_best st (c_emit es st)"
  by (simp add: c_tracks_best_def)

lemma train_step_tracks_best: "c_tracks_best st (train_step env md bd b st)"
proof (cases rule: train_step_cases [of st env md bd b])
  case plain
  then show ?thesis by (simp add: c_tracks_best_def)
next
  case (evaluated f es)
  let ?es = "Train_step (steps_done st + 1) # Val_f1 (steps_done st + 1) f
           # es @ [Model_saved (path_join md ''model.pt'')]"
  have v: "c_validated ?es = [(steps_done st + 1, f)]" using evaluated by simp
  show ?thesis
    unfolding c_tracks_best_def
  proof (intro exI [of _ ?es] conjI)
    show "c_trace (train_step env md bd b st) = c_trace st @ ?es" using evaluated by simp
    show "max_f1 (train_step env md bd b st) =
        Max (insert (max_f1 st) (snd ` set (c_validated ?es)))"
      unfolding v using evaluated by (simp add: max.commute)
    show "\<forall>m \<in> snd ` set (c_validated ?es). 0 \<le> m"
      unfolding v using evaluated by simp
  qed
qed






text \<open>The loop over the batches of one epoch, and the loop over epochs.\<close>

lemma train_epoch_rel:
  assumes refl: "\<And>st. R st st"
    and trans: "\<And>st st1 st2. R st st1 \<Longrightarrow> R st1 st2 \<Longrightarrow> R st st2"
    and step: "\<And>b st. R st (train_step env md bd b st)"
  shows "R st (train_epoch env md bd bs st)"
proof (induction bs arbitrary: st)
  case Nil
  show ?case by (simp add: refl)
next
  case (Cons b bs)
  have "R st (train_step env md bd b st)" by (rule step)
  moreover have "R (train_step env md bd b st) (train_epoch env md bd bs (train_step env md bd b st))"
    by (rule Cons.IH)
  ultimately show ?case by (simp add: trans [of st "train_step env md bd b st"])
qed

lemma train_rel:
  assumes refl: "\<And>st. R st st"
    and trans: "\<And>st st1 st2. R st st1 \<Longrightarrow> R st1 st2 \<Longrightarrow> R st st2"
    and step: "\<And>b st. R st (train_step env md bd b st)"
    and emit: "\<And>st. R st (c_emit [Epoch_started] st)" "\<And>st. R st (c_emit [Epoch_done] st)"
    and run: "train env md bd n st = Some st'"
  shows "R st st'"
proof -
  have "e = env \<longrightarrow> m = md \<longrightarrow> b = bd \<longrightarrow> R s s'" if "train e m b k s = Some s'" for e m b k s s'
    using that
  proof (rule train.raw_induct [rotated])
    fix tr e m b k s s'
    assume IH: "\<And>e m b k s s'. tr e m b k s = Some s' \<Longrightarrow> e = env \<longrightarrow> m = md \<longrightarrow> b = bd \<longrightarrow> R s s'"
      and body: "(if steps_done s < k
          then tr e m b k (c_emit [Epoch_done]
                 (train_epoch e m b (c_train_iter e) (c_emit [Epoch_started] s)))
          else Some s) = Some s'"
    show "e = env \<longrightarrow> m = md \<longrightarrow> b = bd \<longrightarrow> R s s'"
    proof (intro impI)
      assume eq: "e = env" "m = md" "b = bd"
      show "R s s'"
      proof (cases "steps_done s < k")
        case False
        with body show ?thesis by (simp add: refl)
      next
        case True
        let ?s1 = "c_emit [Epoch_started] s"
        let ?s2 = "train_epoch env md bd (c_train_iter env) ?s1"
        let ?s3 = "c_emit [Epoch_done] ?s2"
        from True body eq have "tr e m b k ?s3 = Some s'" by simp
        from IH [OF this] eq have r: "R ?s3 s'" by simp
        have "R s ?s1" by (rule emit)
        moreover have "R ?s1 ?s2" by (rule train_epoch_rel [of R, OF refl trans step])
        moreover have "R ?s2 ?s3" by (rule emit)
        ultimately show ?thesis using r by (blast intro: trans)
      qed
    qed
  qed
  with run show ?thesis by simp
qed

lemma train_tracks_best:
  "train env md bd n st = Some st' \<Longrightarrow> c_tracks_best st st'"
  by (rule train_rel [of c_tracks_best, OF c_tracks_best_refl c_tracks_best_trans
        train_step_tracks_best c_tracks_best_emit c_tracks_best_emit]) simp_all


lemma train_done:
  assumes "train env md bd n st = Some st'"
  shows "\<not> steps_done st' < n"
  using assms
proof (rule train.raw_induct [rotated])
  fix tr e m b k s s'
  assume IH: "\<And>e m b k s s'. tr e m b k s = Some s' \<Longrightarrow> \<not> steps_done s' < k"
    and body: "(if steps_done s < k
        then tr e m b k (c_emit [Epoch_done]
               (train_epoch e m b (c_train_iter e) (c_emit [Epoch_started] s)))
        else Some s) = Some s'"
  show "\<not> steps_done s' < k"
  proof (cases "steps_done s < k")
    case False
    with body show ?thesis by simp
  next
    case True
    with body have "tr e m b k (c_emit [Epoch_done]
        (train_epoch e m b (c_train_iter e) (c_emit [Epoch_started] s))) = Some s'"
      by simp
    then show ?thesis by (rule IH)
  qed
qed

text \<open>\<open>train\<close> returns when the training iterator is not empty.\<close>

lemma steps_done_train_epoch:
  "steps_done (train_epoch env md bd bs st) = steps_done st + int (length bs)"
proof (induction bs arbitrary: st)
  case Nil
  show ?case by simp
next
  case (Cons b bs)
  have "steps_done (train_step env md bd b st) = steps_done st + 1"
    by (cases rule: train_step_cases [of st env md bd b]) simp_all
  with Cons show ?case by simp
qed


lemma train_finished: "\<not> steps_done st < n \<Longrightarrow> train env md bd n st = Some st"
  by (subst train.simps) simp

section \<open>\<open>get_model_name\<close>\<close>

lemma collect_opts_cong:
  "(\<And>k. k \<in> set ks \<Longrightarrow> d1 k = d2 k) \<Longrightarrow> collect_opts d1 ks = collect_opts d2 ks"
  by (induction ks) (auto split: option.splits sum.splits)

lemma vars_hp_agree:
  "agree_on_imp_opts h1 h2 \<Longrightarrow> k \<in> set imp_opts \<Longrightarrow>
     (vars_hp h1 :: 't dict) k = (vars_hp h2 :: 't dict) k"
  by (auto simp: agree_on_imp_opts_def imp_opts_def vars_hp_def)

lemma get_model_name_agree:
  fixes repr :: "'t pyval \<Rightarrow> string"
  assumes "agree_on_imp_opts h1 h2"
  shows "get_model_name repr md5 h1 = get_model_name repr md5 h2"
proof -
  have "collect_opts (vars_hp h1 :: 't dict) imp_opts = collect_opts (vars_hp h2) imp_opts"
    by (rule collect_opts_cong) (rule vars_hp_agree [OF assms])
  then show ?thesis by (simp add: get_model_name_def)
qed

lemma get_model_name_total:
  "get_model_name repr md5 h = Inr (''coref_'' @ md5 (str_items repr
     [(''model'', PyStr (hp_model h)), (''model_size'', PyStr (hp_model_size h)),
      (''batch_size'', PyInt (hp_batch_size h)), (''n_epochs'', PyInt (hp_n_epochs h)),
      (''fine_tune'', PyBool (hp_fine_tune h)), (''span_dim'', PyInt (hp_span_dim h)),
      (''pool_method'', PyStr (hp_pool_method h)), (''train_frac'', PyFloat (hp_train_frac h)),
      (''seed'', PyInt (hp_seed h)), (''lr'', PyFloat (hp_lr h)),
      (''lr_tune'', PyFloat (hp_lr_tune h))]))"
  by (simp add: get_model_name_def imp_opts_def vars_hp_def)

section \<open>Checkpoints and the script of the coreference task\<close>

lemma save_model_file:
  "c_files (save_model st n f p) p = Some (map_of
     [(''steps_done'', PyInt n), (''max_f1'', PyFloat f),
      (''model_state_dict'', Opaque (c_model st)),
      (''optimizer_state_dict'', Optim (c_optimizer st)),
      (''scheduler_state_dict'', Opaque (c_scheduler st)),
      (''rng_state'', Opaque (c_rng_state st))])"
  by (simp add: save_model_def c_emit_def)


lemma coref_load_absent:
  "c_files st (path_join bp ''model.pt'') = None \<Longrightarrow> coref_load_checkpoint bp st = Normal st"
  by (simp add: coref_load_checkpoint_def)

lemma final_eval_absent:
  "c_files st (path_join bp ''model.pt'') = None \<Longrightarrow> final_eval env bp st = Normal st"
  by (simp add: final_eval_def)







lemma coref_read_back:
  "read_items (the (c_files (save_model st n f p) p)) coref_checkpoint_reads st0 =
     Normal (c_resumed st0 st n f)"
  by (simp add: save_model_file coref_checkpoint_reads_def set_c_model_def set_c_optimizer_def
      set_c_scheduler_def set_steps_done_def set_max_f1_def set_c_rng_state_def c_resumed_def)

lemma coref_load_saved:
  assumes "c_files st0 (path_join bp ''model.pt'')
      = c_files (save_model st n f (path_join bp ''model.pt'')) (path_join bp ''model.pt'')"
  shows "coref_load_checkpoint bp st0 =
     Normal (c_emit [Steps_done n f] (c_resumed (c_emit [Loading_previous_checkpoint] st0) st n f))"
proof -
  let ?p = "path_join bp ''model.pt''"
  obtain d where d: "c_files (save_model st n f ?p) ?p = Some d"
    by (simp add: save_model_file)
  then have "read_items d coref_checkpoint_reads (c_emit [Loading_previous_checkpoint] st0) =
      Normal (c_resumed (c_emit [Loading_previous_checkpoint] st0) st n f)"
    using coref_read_back [of st n f ?p "c_emit [Loading_previous_checkpoint] st0"] by simp
  with assms d show ?thesis
    by (simp add: coref_load_checkpoint_def log_steps_done_def c_resumed_def c_emit_def)
qed





section \<open>The claims about the scripts\<close>

text \<open>
  Claim C9. \<open>validate\<close> of the constituent classification script leaves the CPU and CUDA
  random number generator states as they were before the call, whatever the forward passes
  over the loader did to them, both when it returns an accuracy and when the final division
  raises; in the model nothing else of the state changes either.
\<close>

theorem validate_restores_rng:
  "rng_state (fst (validate env loader st)) = rng_state st
   \<and> cuda_rng_state (fst (validate env loader st)) = cuda_rng_state st
   \<and> fst (validate env loader st) = st"
  by (simp add: validate_state)

text \<open>
  Claim C5. The checkpoint written by the constituent classification script is a dictionary
  with the keys \<open>model\<close>, \<open>weighing_params\<close>, \<open>best_model\<close>, \<open>best_weighing_params\<close>,
  \<open>best_acc\<close>, \<open>optimizer\<close>, \<open>epoch\<close>, \<open>step\<close>, \<open>lr_controller\<close> and \<open>cuda_rng_state\<close>,
  holding the current values; the one written by \<open>save_model\<close> of the coreference script
  has the keys \<open>steps_done\<close>, \<open>max_f1\<close>, \<open>model_state_dict\<close>, \<open>optimizer_state_dict\<close>,
  \<open>scheduler_state_dict\<close> and \<open>rng_state\<close>.
\<close>

theorem checkpoint_record_contents:
  "files (save_checkpoint env args epoch step st) (ckpt_path args)
     = Some (checkpoint_dict st epoch step)
   \<and> dom (checkpoint_dict st epoch step) =
       {''model'', ''weighing_params'', ''best_model'', ''best_weighing_params'', ''best_acc'',
        ''optimizer'', ''epoch'', ''step'', ''lr_controller'', ''cuda_rng_state''}
   \<and> checkpoint_dict st epoch step ''model'' = Some (Opaque (model st))
   \<and> checkpoint_dict st epoch step ''optimizer'' = Some (Optim (optimizer st))
   \<and> checkpoint_dict st epoch step ''cuda_rng_state'' = Some (Opaque (cuda_rng_state st))
   \<and> checkpoint_dict st epoch step ''epoch'' = Some (PyInt (int epoch))
   \<and> checkpoint_dict st epoch step ''step'' = Some (PyInt (int step))
   \<and> checkpoint_dict st epoch step ''best_acc'' = Some (PyFloat (best_acc st))
   \<and> checkpoint_dict st epoch step ''lr_controller'' = Some (Ctrl (lr_controller st))
   \<and> (\<exists>d. c_files (save_model cst n f p) p = Some d
        \<and> dom d = {''steps_done'', ''max_f1'', ''model_state_dict'', ''optimizer_state_dict'',
                   ''scheduler_state_dict'', ''rng_state''}
        \<and> d ''model_state_dict'' = Some (Opaque (c_model cst))
        \<and> d ''optimizer_state_dict'' = Some (Optim (c_optimizer cst))
        \<and> d ''scheduler_state_dict'' = Some (Opaque (c_scheduler cst))
        \<and> d ''rng_state'' = Some (Opaque (c_rng_state cst))
        \<and> d ''steps_done'' = Some (PyInt n)
        \<and> d ''max_f1'' = Some (PyFloat f))"
proof -
  have cc: "files (save_checkpoint env args epoch step st) (ckpt_path args)
      = Some (checkpoint_dict st epoch step)"
    by (simp add: save_checkpoint_def emit_def)
  let ?d = "map_of
     [(''steps_done'', PyInt n), (''max_f1'', PyFloat f),
      (''model_state_dict'', Opaque (c_model cst)),
      (''optimizer_state_dict'', Optim (c_optimizer cst)),
      (''scheduler_state_dict'', Opaque (c_scheduler cst)),
      (''rng_state'', Opaque (c_rng_state cst))]"
  have dom: "dom ?d = {''steps_done'', ''max_f1'', ''model_state_dict'', ''optimizer_state_dict'',
                   ''scheduler_state_dict'', ''rng_state''}"
    unfolding dom_map_of_conv_image_fst by auto
  have coref: "\<exists>d. c_files (save_model cst n f p) p = Some d
        \<and> dom d = {''steps_done'', ''max_f1'', ''model_state_dict'', ''optimizer_state_dict'',
                   ''scheduler_state_dict'', ''rng_state''}
        \<and> d ''model_state_dict'' = Some (Opaque (c_model cst))
        \<and> d ''optimizer_state_dict'' = Some (Optim (c_optimizer cst))
        \<and> d ''scheduler_state_dict'' = Some (Opaque (c_scheduler cst))
        \<and> d ''rng_state'' = Some (Opaque (c_rng_state cst))
        \<and> d ''steps_done'' = Some (PyInt n)
        \<and> d ''max_f1'' = Some (PyFloat f)"
    by (rule exI [of _ ?d]) (simp add: save_model_file dom)
  from cc coref show ?thesis
    by (simp add: dom_checkpoint_dict checkpoint_dict_values)
qed



lemma skip_batch_resumed:
  "skip_batch (resumed s0 st epoch step) e s \<longleftrightarrow> batch_le (e, s) (epoch, step)"
  by (auto simp: skip_batch_def resumed_def batch_le_def)

lemma trace_resumed: "trace (resumed s0 st epoch step) = trace s0"
  by (simp add: resumed_def)

text \<open>
  Claim C4. When a restarted run of the constituent classification script finds the
  checkpoint that was written from the state \<open>st\<close> at the batch \<open>(epoch, step)\<close> (with a
  controller that has not reached its terminate range), loading it succeeds and gives every
  saved field the value it had in \<open>st\<close>: weights, weighing parameters, best model, best
  accuracy, optimizer, controller, CUDA generator state, and the epoch and step. The resumed
  loop then skips a batch exactly when its position is up to and including \<open>(epoch, step)\<close>:
  the batches it trains on are a prefix of the later positions, in order, and all of them
  when the loop ends without early termination. In the coreference script, whose checkpoint
  has a step count and no batch position, loading what \<open>save_model\<close> wrote restores the
  weights, optimizer, scheduler, generator state, step count and best metric.
\<close>

theorem checkpoint_round_trip:
  fixes env :: "('t, 'b) env" and st st0 :: "'t state" and cst cst0 :: "'t coref_state"
  assumes "files st0 (ckpt_path args)
      = files (save_checkpoint env args epoch step st) (ckpt_path args)"
    and "not_improved (lr_controller st) < terminate_range (lr_controller st)"
  defines "st1 \<equiv> resumed (emit [Load_checkpoint (ckpt_path args)] st0) st epoch step"
  shows "load_checkpoint env args st0 = Normal st1
    \<and> model st1 = model st \<and> weighing_params st1 = weighing_params st
    \<and> best_model st1 = best_model st \<and> best_weighing_params st1 = best_weighing_params st
    \<and> best_acc st1 = best_acc st \<and> optimizer st1 = optimizer st
    \<and> lr_controller st1 = lr_controller st \<and> cuda_rng_state st1 = cuda_rng_state st
    \<and> start_epoch st1 = int epoch \<and> epoch_step st1 = int step
    \<and> (\<forall>e s. skip_batch st1 e s \<longleftrightarrow> batch_le (e, s) (epoch, step))
    \<and> (\<exists>ps rest.
          trained (trace (state_of (training env args es st1))) = trained (trace st0) @ ps
        \<and> filter (\<lambda>p. \<not> batch_le p (epoch, step)) (all_batches es (length (train_loader env)))
            = ps @ rest
        \<and> (\<forall>st'. training env args es st1 = Normal st' \<and> \<not> terminate st' \<longrightarrow> rest = []))
    \<and> (c_files cst0 (path_join bp ''model.pt'')
          = c_files (save_model cst n f (path_join bp ''model.pt'')) (path_join bp ''model.pt'')
        \<longrightarrow> coref_load_checkpoint bp cst0
              = Normal (c_emit [Steps_done n f]
                  (c_resumed (c_emit [Loading_previous_checkpoint] cst0) cst n f))
          \<and> c_model (c_resumed cst0 cst n f) = c_model cst
          \<and> c_optimizer (c_resumed cst0 cst n f) = c_optimizer cst
          \<and> c_scheduler (c_resumed cst0 cst n f) = c_scheduler cst
          \<and> c_rng_state (c_resumed cst0 cst n f) = c_rng_state cst
          \<and> steps_done (c_resumed cst0 cst n f) = n
          \<and> max_f1 (c_resumed cst0 cst n f) = f)"
proof -
  have found: "files st0 (ckpt_path args) = Some (checkpoint_dict st epoch step)"
    using assms(1) by (simp add: save_checkpoint_def emit_def)
  have read: "read_items (checkpoint_dict st epoch step) checkpoint_reads
      (emit [Load_checkpoint (ckpt_path args)] st0) = Normal st1"
    by (simp add: read_back st1_def resumed_def)
  have ctrl: "lr_controller st1 = lr_controller st" by (simp add: st1_def resumed_def)
  have load: "load_checkpoint env args st0 = Normal st1"
    using found read ctrl assms(2) by (simp add: load_checkpoint_def)
  have fields: "model st1 = model st \<and> weighing_params st1 = weighing_params st
    \<and> best_model st1 = best_model st \<and> best_weighing_params st1 = best_weighing_params st
    \<and> best_acc st1 = best_acc st \<and> optimizer st1 = optimizer st
    \<and> lr_controller st1 = lr_controller st \<and> cuda_rng_state st1 = cuda_rng_state st
    \<and> start_epoch st1 = int epoch \<and> epoch_step st1 = int step"
    by (simp add: st1_def resumed_def)
  have skip: "skip_batch st1 e s \<longleftrightarrow> batch_le (e, s) (epoch, step)" for e s
    unfolding st1_def by (rule skip_batch_resumed)
  have tr: "trained (trace st1) = trained (trace st0)"
    by (simp add: st1_def trace_resumed)
  from training_trained [of env args es st1] obtain ps rest where
    "trained (trace (state_of (training env args es st1))) = trained (trace st1) @ ps"
    "filter (\<lambda>p. \<not> skip_batch st1 (fst p) (snd p)) (all_batches es (length (train_loader env)))
       = ps @ rest"
    "\<forall>st'. training env args es st1 = Normal st' \<and> \<not> terminate st' \<longrightarrow> rest = []"
    by blast
  then have loop: "\<exists>ps rest.
          trained (trace (state_of (training env args es st1))) = trained (trace st0) @ ps
        \<and> filter (\<lambda>p. \<not> batch_le p (epoch, step)) (all_batches es (length (train_loader env)))
            = ps @ rest
        \<and> (\<forall>st'. training env args es st1 = Normal st' \<and> \<not> terminate st' \<longrightarrow> rest = [])"
    unfolding tr skip prod.collapse by blast
  have coref: "c_files cst0 (path_join bp ''model.pt'')
          = c_files (save_model cst n f (path_join bp ''model.pt'')) (path_join bp ''model.pt'')
        \<longrightarrow> coref_load_checkpoint bp cst0
              = Normal (c_emit [Steps_done n f]
                  (c_resumed (c_emit [Loading_previous_checkpoint] cst0) cst n f))
          \<and> c_model (c_resumed cst0 cst n f) = c_model cst
          \<and> c_optimizer (c_resumed cst0 cst n f) = c_optimizer cst
          \<and> c_scheduler (c_resumed cst0 cst n f) = c_scheduler cst
          \<and> c_rng_state (c_resumed cst0 cst n f) = c_rng_state cst
          \<and> steps_done (c_resumed cst0 cst n f) = n
          \<and> max_f1 (c_resumed cst0 cst n f) = f"
    by (simp add: coref_load_saved) (simp add: c_resumed_def)
  from load fields skip loop coref show ?thesis by blast
qed


theorem checkpoint_round_trip_witness:
  "files (initial_state demo_env demo_args resume_files) (ckpt_path demo_args)
     = files (save_checkpoint demo_env demo_args 0 1 (stale_state 4)) (ckpt_path demo_args)
   \<and> not_improved (lr_controller (stale_state 4)) < terminate_range (lr_controller (stale_state 4))
   \<and> load_checkpoint demo_env demo_args (initial_state demo_env demo_args resume_files)
       = Normal (resumed (emit [Load_checkpoint (ckpt_path demo_args)]
                     (initial_state demo_env demo_args resume_files)) (stale_state 4) 0 1)
   \<and> skip_batch (resumed (emit [Load_checkpoint (ckpt_path demo_args)]
                     (initial_state demo_env demo_args resume_files)) (stale_state 4) 0 1) 0 1
   \<and> \<not> skip_batch (resumed (emit [Load_checkpoint (ckpt_path demo_args)]
                     (initial_state demo_env demo_args resume_files)) (stale_state 4) 0 1) 1 0
   \<and> batch_le (0, 1) (0, 1) \<and> \<not> batch_le (1, 0) (0, 1)
   \<and> trained (trace (state_of (training demo_env demo_args [0, 1]
         (resumed (emit [Load_checkpoint (ckpt_path demo_args)]
            (initial_state demo_env demo_args resume_files)) (stale_state 4) 0 1))))
       = [(1, 0), (1, 1)]
   \<and> c_files (demo_cst demo_cfiles) (path_join ''ckpts/coref_0f/best_models'' ''model.pt'')
       = c_files (save_model demo_cst_saved 999 0
                    (path_join ''ckpts/coref_0f/best_models'' ''model.pt''))
           (path_join ''ckpts/coref_0f/best_models'' ''model.pt'')
   \<and> coref_load_checkpoint ''ckpts/coref_0f/best_models'' (demo_cst demo_cfiles)
       = Normal (c_emit [Steps_done 999 0]
           (c_resumed (c_emit [Loading_previous_checkpoint] (demo_cst demo_cfiles))
              demo_cst_saved 999 0))"
proof -
  let ?s0 = "initial_state demo_env demo_args resume_files"
  let ?st1 = "resumed (emit [Load_checkpoint (ckpt_path demo_args)] ?s0) (stale_state 4) 0 1"
  have h1: "files ?s0 (ckpt_path demo_args)
     = files (save_checkpoint demo_env demo_args 0 1 (stale_state 4)) (ckpt_path demo_args)"
    by (simp add: initial_state_def resume_files_def save_checkpoint_def emit_def)
  have h2: "not_improved (lr_controller (stale_state 4))
      < terminate_range (lr_controller (stale_state 4))"
    by (simp add: stale_state_def stale_controller_def)
  have h3: "c_files (demo_cst demo_cfiles) (path_join ''ckpts/coref_0f/best_models'' ''model.pt'')
       = c_files (save_model demo_cst_saved 999 0
                    (path_join ''ckpts/coref_0f/best_models'' ''model.pt''))
           (path_join ''ckpts/coref_0f/best_models'' ''model.pt'')"
    by (simp add: save_model_file demo_cst_def demo_cfiles_def demo_checkpoint_def
        demo_cst_saved_def path_join_def)
  note inst = checkpoint_round_trip [OF h1 h2, of "[0, 1]" "demo_cst demo_cfiles"
      "''ckpts/coref_0f/best_models''" demo_cst_saved 999 0]
  from inst h3 have cl: "coref_load_checkpoint ''ckpts/coref_0f/best_models'' (demo_cst demo_cfiles)
       = Normal (c_emit [Steps_done 999 0]
           (c_resumed (c_emit [Loading_previous_checkpoint] (demo_cst demo_cfiles))
              demo_cst_saved 999 0))"
    by blast
  from inst have load: "load_checkpoint demo_env demo_args ?s0 = Normal ?st1" by blast
  from inst have skip: "\<And>e s. skip_batch ?st1 e s \<longleftrightarrow> batch_le (e, s) (0, 1)" by blast
  have le: "batch_le (0, 1) (0, 1)" "\<not> batch_le (1, 0) (0, 1)"
    by (simp_all add: batch_le_def)
  from inst obtain ps rest where
    ps: "trained (trace (state_of (training demo_env demo_args [0, 1] ?st1)))
        = trained (trace ?s0) @ ps"
    and parts: "filter (\<lambda>p. \<not> batch_le p (0, 1))
        (all_batches [0, 1] (length (train_loader demo_env))) = ps @ rest"
    and full: "\<forall>st'. training demo_env demo_args [0, 1] ?st1 = Normal st' \<and> \<not> terminate st'
        \<longrightarrow> rest = []"
    by blast
  have run: "\<exists>st'. training demo_env demo_args [0, 1] ?st1 = Normal st' \<and> \<not> terminate st'"
    by (simp add: resumed_def initial_state_def stale_state_def stale_controller_def
        demo_env_def demo_args_def emit_def skip_batch_def train_batch_def optimize_batch_def
        actual_step_def evaluate_def validate_def update_best_def update_validation_result_def
        add_value_def save_checkpoint_def time_check_def enumerate_eq_zip)
  with full have "rest = []" by blast
  moreover have "filter (\<lambda>p. \<not> batch_le p (0, 1))
        (all_batches [0, 1] (length (train_loader demo_env))) = [(1, 0), (1, 1)]"
    by (simp add: all_batches_def demo_env_def batch_le_def)
  ultimately have "ps = [(1, 0), (1, 1)]" using parts by simp
  moreover have "trained (trace ?s0) = []" by (simp add: initial_state_def)
  ultimately have tr: "trained (trace (state_of (training demo_env demo_args [0, 1] ?st1)))
      = [(1, 0), (1, 1)]"
    using ps by simp
  have sk1: "skip_batch ?st1 0 1" unfolding skip by (rule le(1))
  have sk2: "\<not> skip_batch ?st1 1 0" unfolding skip by (rule le(2))
  show ?thesis
    by (intro conjI) (rule h1 h2 load sk1 sk2 le tr h3 cl)+
qed

text \<open>
  Claim C6, as stated, fails: a run that finds no checkpoint file raises nothing. Here the
  example run of the constituent classification script starts without any file, passes the
  loading step unchanged and ends normally.
\<close>

theorem absent_checkpoint_counterexample:
  "no_files (ckpt_path demo_args) = None
   \<and> load_checkpoint demo_env demo_args (initial_state demo_env demo_args no_files)
       = Normal (initial_state demo_env demo_args no_files)
   \<and> \<not> is_raised (main demo_env demo_args no_files)"
  by (simp add: main_def initialize_def initial_state_def load_checkpoint_def
      test_best_def validate_def evaluate_def update_best_def update_validation_result_def
      save_checkpoint_def time_check_def train_batch_def optimize_batch_def skip_batch_def
      emit_def add_value_def actual_step_def ckpt_path_def path_join_def
      LearningRateController_default_def LearningRateController_init_def
      demo_env_def demo_args_def no_files_def enumerate_eq_zip upt_rec)

text \<open>
  Claim C6, amended. The scripts catch no exception: an outcome that raises is passed on
  unchanged by every later step, so a missing directory for the argument file or a key
  missing from a loaded checkpoint ends the run with the error of the framework. An absent
  checkpoint file, however, raises nothing: each script tests for the file first, and when
  it is absent the loading step returns the state unchanged and \<open>final_eval\<close> of the
  coreference script reports nothing.
\<close>

theorem absent_checkpoint_is_skipped:
  fixes env :: "('t, 'b) env" and st :: "'t state"
    and cenv :: "('t, 'b) coref_env" and cst :: "'t coref_state"
    and r :: "'t state outcome"
  shows "(files st (ckpt_path args) = None \<longrightarrow> load_checkpoint env args st = Normal st)
    \<and> (c_files cst (path_join bp ''model.pt'') = None \<longrightarrow>
          coref_load_checkpoint bp cst = Normal cst \<and> final_eval cenv bp cst = Normal cst)
    \<and> (is_raised r \<longrightarrow> and_then r f = r)
    \<and> (\<not> model_path_exists env \<longrightarrow>
          main env args fs
            = Raised (FileNotFoundError (args_save_path args)) (initial_state env args fs))
    \<and> (model_path_exists env \<and> label_dict_size env = 2
        \<and> is_raised (load_checkpoint env args (emit startup_events (initial_state env args fs)))
        \<longrightarrow> main env args fs
            = load_checkpoint env args (emit startup_events (initial_state env args fs)))
    \<and> (files st (ckpt_path args) = Some d \<and> d ''model'' = None \<longrightarrow>
          load_checkpoint env args st
            = Raised (KeyError ''model'') (emit [Load_checkpoint (ckpt_path args)] st))"
proof (intro conjI impI)
  assume "files st (ckpt_path args) = None"
  then show "load_checkpoint env args st = Normal st" by (rule load_checkpoint_absent)
next
  assume a: "c_files cst (path_join bp ''model.pt'') = None"
  then show "coref_load_checkpoint bp cst = Normal cst" by (rule coref_load_absent)
  from a show "final_eval cenv bp cst = Normal cst" by (rule final_eval_absent)
next
  assume "is_raised r"
  then show "and_then r f = r" by (cases r) simp_all
next
  assume "\<not> model_path_exists env"
  then show "main env args fs
      = Raised (FileNotFoundError (args_save_path args)) (initial_state env args fs)"
    by (simp add: main_def initialize_bad_path)
next
  let ?r = "load_checkpoint env args (emit startup_events (initial_state env args fs))"
  assume a: "model_path_exists env \<and> label_dict_size env = 2 \<and> is_raised ?r"
  then have "main env args fs
      = and_then ?r (\<lambda>st. and_then (training env args [0..<nat (epochs args)] st) (test_best env))"
    by (simp add: main_ok)
  with a show "main env args fs = ?r" by (cases ?r) simp_all
next
  assume "files st (ckpt_path args) = Some d \<and> d ''model'' = None"
  then show "load_checkpoint env args st
      = Raised (KeyError ''model'') (emit [Load_checkpoint (ckpt_path args)] st)"
    by (simp add: load_checkpoint_def checkpoint_reads_def)
qed


theorem absent_checkpoint_is_skipped_witness:
  "files (initial_state demo_env demo_args no_files) (ckpt_path demo_args) = None
   \<and> load_checkpoint demo_env demo_args (initial_state demo_env demo_args no_files)
       = Normal (initial_state demo_env demo_args no_files)
   \<and> c_files (demo_cst Map.empty) (path_join ''ckpts/coref_0f/best_models'' ''model.pt'') = None
   \<and> coref_load_checkpoint ''ckpts/coref_0f/best_models'' (demo_cst Map.empty)
       = Normal (demo_cst Map.empty)
   \<and> final_eval demo_cenv ''ckpts/coref_0f/best_models'' (demo_cst Map.empty)
       = Normal (demo_cst Map.empty)
   \<and> is_raised (Raised AssertionError (initial_state demo_env demo_args no_files))
   \<and> and_then (Raised AssertionError (initial_state demo_env demo_args no_files))
         (test_best demo_env)
       = Raised AssertionError (initial_state demo_env demo_args no_files)
   \<and> \<not> model_path_exists (demo_env\<lparr>model_path_exists := False\<rparr>)
   \<and> main (demo_env\<lparr>model_path_exists := False\<rparr>) demo_args no_files
       = Raised (FileNotFoundError ''checkpoints/debug.args.pt'')
           (initial_state (demo_env\<lparr>model_path_exists := False\<rparr>) demo_args no_files)
   \<and> model_path_exists demo_env \<and> label_dict_size demo_env = 2
   \<and> files (initial_state demo_env demo_args broken_files) (ckpt_path demo_args) = Some Map.empty
   \<and> load_checkpoint demo_env demo_args (initial_state demo_env demo_args broken_files)
       = Raised (KeyError ''model'')
           (emit [Load_checkpoint (ckpt_path demo_args)]
              (initial_state demo_env demo_args broken_files))
   \<and> main demo_env demo_args broken_files
       = Raised (KeyError ''model'')
           (emit [Load_checkpoint (ckpt_path demo_args)]
              (emit startup_events (initial_state demo_env demo_args broken_files)))"
proof -
  let ?s = "initial_state demo_env demo_args no_files"
  let ?b = "initial_state demo_env demo_args broken_files"
  let ?off = "demo_env\<lparr>model_path_exists := False\<rparr>"
  note one = absent_checkpoint_is_skipped [of ?s demo_args demo_env "demo_cst Map.empty"
      "''ckpts/coref_0f/best_models''" demo_cenv "Raised AssertionError ?s" "test_best demo_env"
      no_files "Map.empty"]
  note two = absent_checkpoint_is_skipped [of ?b demo_args ?off "demo_cst Map.empty"
      "''ckpts/coref_0f/best_models''" demo_cenv "Raised AssertionError ?s" "test_best demo_env"
      no_files "Map.empty"]
  note three = absent_checkpoint_is_skipped [of "emit startup_events ?b" demo_args demo_env
      "demo_cst Map.empty" "''ckpts/coref_0f/best_models''" demo_cenv "Raised AssertionError ?s"
      "test_best demo_env" broken_files "Map.empty"]
  note four = absent_checkpoint_is_skipped [of ?b demo_args demo_env "demo_cst Map.empty"
      "''ckpts/coref_0f/best_models''" demo_cenv "Raised AssertionError ?s" "test_best demo_env"
      no_files "Map.empty"]
  have h1: "files ?s (ckpt_path demo_args) = None"
    by (simp add: initial_state_def no_files_def)
  have c1: "load_checkpoint demo_env demo_args ?s = Normal ?s" using one h1 by blast
  have h2: "c_files (demo_cst Map.empty) (path_join ''ckpts/coref_0f/best_models'' ''model.pt'')
      = None"
    by (simp add: demo_cst_def)
  have c2: "coref_load_checkpoint ''ckpts/coref_0f/best_models'' (demo_cst Map.empty)
       = Normal (demo_cst Map.empty)"
    and c2': "final_eval demo_cenv ''ckpts/coref_0f/best_models'' (demo_cst Map.empty)
       = Normal (demo_cst Map.empty)"
    using one h2 by blast+
  have h3: "is_raised (Raised AssertionError ?s)" by simp
  have c3: "and_then (Raised AssertionError ?s) (test_best demo_env) = Raised AssertionError ?s"
    using one h3 by blast
  have h4: "\<not> model_path_exists ?off" by simp
  have "args_save_path demo_args = ''checkpoints/debug.args.pt''"
    by (simp add: args_save_path_def demo_args_def path_join_def)
  then have c4: "main ?off demo_args no_files
       = Raised (FileNotFoundError ''checkpoints/debug.args.pt'')
           (initial_state ?off demo_args no_files)"
    using two h4 by simp
  have h5: "model_path_exists demo_env" "label_dict_size demo_env = 2"
    by (simp_all add: demo_env_def)
  have h6: "files ?b (ckpt_path demo_args) = Some Map.empty"
    by (simp add: initial_state_def broken_files_def)
  have h6': "files (emit startup_events ?b) (ckpt_path demo_args) = Some Map.empty"
    by (simp add: initial_state_def broken_files_def emit_def)
  have c6: "load_checkpoint demo_env demo_args ?b
       = Raised (KeyError ''model'') (emit [Load_checkpoint (ckpt_path demo_args)] ?b)"
    using four h6 by simp
  have c6': "load_checkpoint demo_env demo_args (emit startup_events ?b)
       = Raised (KeyError ''model'')
           (emit [Load_checkpoint (ckpt_path demo_args)] (emit startup_events ?b))"
    using three h6' by simp
  then have "is_raised (load_checkpoint demo_env demo_args (emit startup_events ?b))" by simp
  with three h5 have "main demo_env demo_args broken_files
      = load_checkpoint demo_env demo_args (emit startup_events ?b)"
    by blast
  then have c5: "main demo_env demo_args broken_files
       = Raised (KeyError ''model'')
           (emit [Load_checkpoint (ckpt_path demo_args)] (emit startup_events ?b))"
    by (simp only: c6')
  show ?thesis
    by (intro conjI) (rule h1 c1 h2 c2 c2' h3 c3 h4 c4 h5 h6 c6 c5)+
qed

lemma Max_insert_zero:
  assumes "finite S" "S \<noteq> {}" "\<forall>m \<in> S. (0::real) \<le> m"
  shows "Max (insert 0 S) = Max S"
proof -
  have "Max (insert 0 S) = max 0 (Max S)" using assms by (intro Max_insert) simp_all
  moreover have "0 \<le> Max S" using assms by (simp add: Max_ge_iff) blast
  ultimately show ?thesis by simp
qed

lemma evaluate_best_acc:
  assumes "validate env (dev_loader env) st = (st1, Inr a)"
  shows "best_acc (state_of (evaluate env args epoch step st))
      = (if a > best_acc st then a else best_acc st)"
proof (cases rule: evaluate_cases [of env st args epoch step])
  case zero
  with assms show ?thesis by simp
next
  case (failed a' st')
  with assms show ?thesis by (auto simp: max_def)
next
  case (completed a' st' es)
  with assms show ?thesis by (auto simp: max_def)
qed

text \<open>
  Claim C8. The best metric is replaced at an evaluation exactly when the current metric is
  strictly greater. Over the training loop of either script, from a state whose best metric
  is \<open>b\<close> (0 at a fresh start, the restored value after a restart), the best metric at the end
  is the maximum of \<open>b\<close> and the metrics validated in the loop; it never decreases; and after
  at least one validation of a fresh run it is the maximum of the validated metrics.
\<close>

theorem best_metric_tracker:
  fixes env :: "('t, 'b) env" and st :: "'t state"
    and cenv :: "('t, 'b) coref_env" and cst :: "'t coref_state"
  shows "(validate env (dev_loader env) st = (st1, Inr a) \<longrightarrow>
           best_acc (state_of (evaluate env args epoch step st))
             = (if a > best_acc st then a else best_acc st))
    \<and> (\<exists>es. trace (state_of (training env args eplist st)) = trace st @ es
          \<and> best_acc (state_of (training env args eplist st))
              = Max (insert (best_acc st) (snd ` set (validated es)))
          \<and> best_acc st \<le> best_acc (state_of (training env args eplist st))
          \<and> (best_acc st = 0 \<and> validated es \<noteq> [] \<longrightarrow>
                best_acc (state_of (training env args eplist st)) = Max (snd ` set (validated es))))
    \<and> max_f1 (coref_evaluate cenv md bd cst)
        = (if eval_f1 cenv (c_model cst) (c_val_iter cenv) > max_f1 cst
           then eval_f1 cenv (c_model cst) (c_val_iter cenv) else max_f1 cst)
    \<and> (\<forall>cst'. train cenv md bd n cst = Some cst' \<longrightarrow>
          (\<exists>es. c_trace cst' = c_trace cst @ es
             \<and> max_f1 cst' = Max (insert (max_f1 cst) (snd ` set (c_validated es)))
             \<and> max_f1 cst \<le> max_f1 cst'
             \<and> (max_f1 cst = 0 \<and> c_validated es \<noteq> [] \<longrightarrow>
                   max_f1 cst' = Max (snd ` set (c_validated es)))))"
proof (intro conjI impI allI)
  assume "validate env (dev_loader env) st = (st1, Inr a)"
  then show "best_acc (state_of (evaluate env args epoch step st))
      = (if a > best_acc st then a else best_acc st)"
    by (rule evaluate_best_acc)
next
  let ?r = "training env args eplist st"
  from training_tracks_best [of st env args eplist] obtain es where
    es: "trace (state_of ?r) = trace st @ es"
    "best_acc (state_of ?r) = Max (insert (best_acc st) (snd ` set (validated es)))"
    "\<forall>m \<in> snd ` set (validated es). 0 \<le> m"
    unfolding tracks_best_def by blast
  have mono: "best_acc st \<le> best_acc (state_of ?r)" unfolding es(2) by simp
  have fresh: "best_acc (state_of ?r) = Max (snd ` set (validated es))"
    if h: "best_acc st = 0 \<and> validated es \<noteq> []"
  proof -
    have "Max (insert 0 (snd ` set (validated es))) = Max (snd ` set (validated es))"
      using h es(3) by (intro Max_insert_zero) auto
    moreover from h have "best_acc st = 0" by simp
    ultimately show ?thesis unfolding es(2) by (simp only:)
  qed
  from es(1,2) mono fresh
  show "\<exists>es. trace (state_of ?r) = trace st @ es
          \<and> best_acc (state_of ?r) = Max (insert (best_acc st) (snd ` set (validated es)))
          \<and> best_acc st \<le> best_acc (state_of ?r)
          \<and> (best_acc st = 0 \<and> validated es \<noteq> [] \<longrightarrow>
                best_acc (state_of ?r) = Max (snd ` set (validated es)))"
    by blast
next
  show "max_f1 (coref_evaluate cenv md bd cst)
        = (if eval_f1 cenv (c_model cst) (c_val_iter cenv) > max_f1 cst
           then eval_f1 cenv (c_model cst) (c_val_iter cenv) else max_f1 cst)"
    by (simp add: coref_evaluate_fields max_def)
next
  fix cst'
  assume "train cenv md bd n cst = Some cst'"
  from train_tracks_best [OF this] obtain es where
    es: "c_trace cst' = c_trace cst @ es"
    "max_f1 cst' = Max (insert (max_f1 cst) (snd ` set (c_validated es)))"
    "\<forall>m \<in> snd ` set (c_validated es). 0 \<le> m"
    unfolding c_tracks_best_def by blast
  have mono: "max_f1 cst \<le> max_f1 cst'" unfolding es(2) by simp
  have fresh: "max_f1 cst' = Max (snd ` set (c_validated es))"
    if h: "max_f1 cst = 0 \<and> c_validated es \<noteq> []"
  proof -
    have "Max (insert 0 (snd ` set (c_validated es))) = Max (snd ` set (c_validated es))"
      using h es(3) by (intro Max_insert_zero) auto
    moreover from h have "max_f1 cst = 0" by simp
    ultimately show ?thesis unfolding es(2) by (simp only:)
  qed
  from es(1,2) mono fresh
  show "\<exists>es. c_trace cst' = c_trace cst @ es
             \<and> max_f1 cst' = Max (insert (max_f1 cst) (snd ` set (c_validated es)))
             \<and> max_f1 cst \<le> max_f1 cst'
             \<and> (max_f1 cst = 0 \<and> c_validated es \<noteq> [] \<longrightarrow>
                   max_f1 cst' = Max (snd ` set (c_validated es)))"
    by blast
qed


lemma train_unfold:
  "steps_done st < n \<Longrightarrow>
     train env md bd n st =
       train env md bd n (c_emit [Epoch_done]
         (train_epoch env md bd (c_train_iter env) (c_emit [Epoch_started] st)))"
  by (subst train.simps) simp

theorem best_metric_tracker_witness:
  "validate demo_env (dev_loader demo_env) ((initial_state demo_env demo_args no_files)\<lparr>model := 2\<rparr>)
     = ((initial_state demo_env demo_args no_files)\<lparr>model := 2\<rparr>, Inr (1 / 2))
   \<and> best_acc ((initial_state demo_env demo_args no_files)\<lparr>model := 2\<rparr>) = 0
   \<and> best_acc (state_of (evaluate demo_env demo_args 0 1
         ((initial_state demo_env demo_args no_files)\<lparr>model := 2\<rparr>))) = 1 / 2
   \<and> best_acc (initial_state demo_env demo_args no_files) = 0
   \<and> validated (trace (state_of (training demo_env demo_args [0, 1]
         (initial_state demo_env demo_args no_files)))) = [(2, 1 / 2), (4, 0)]
   \<and> best_acc (state_of (training demo_env demo_args [0, 1]
         (initial_state demo_env demo_args no_files))) = 1 / 2
   \<and> (\<exists>cst'. train demo_cenv ''m'' ''b'' 1000 demo_cst_999 = Some cst'
         \<and> max_f1 demo_cst_999 = 0
         \<and> c_validated (c_trace cst') = [(1000, f_score (1, 1, 0, 0))]
         \<and> max_f1 cst' = f_score (1, 1, 0, 0))"
proof -
  let ?s = "initial_state demo_env demo_args no_files"
  let ?s2 = "?s\<lparr>model := 2\<rparr>"
  let ?r = "training demo_env demo_args [0, 1] ?s"
  note one = best_metric_tracker [of demo_env ?s2 ?s2 "1 / 2" demo_args 0 1 "[0, 1]"
      demo_cenv "''m''" "''b''" demo_cst_999 1000]
  note two = best_metric_tracker [of demo_env ?s ?s "1 / 2" demo_args 0 1 "[0, 1]"
      demo_cenv "''m''" "''b''" demo_cst_999 1000]
  have v: "validate demo_env (dev_loader demo_env) ?s2 = (?s2, Inr (1 / 2))"
    by (simp add: validate_def demo_env_def initial_state_def)
  have b0: "best_acc ?s2 = 0" "best_acc ?s = 0" by (simp_all add: initial_state_def)
  from one v b0 have e: "best_acc (state_of (evaluate demo_env demo_args 0 1 ?s2)) = 1 / 2"
    by simp
  have tr: "trace (state_of ?r) =
      [Train_batch 0 0, Train_batch 0 1, Validation 2 (1 / 2), New_best (1 / 2),
       Save_checkpoint ''checkpoints/debug.ckpt'' 2,
       Train_batch 1 0, Train_batch 1 1, Validation 4 0,
       Save_checkpoint ''checkpoints/debug.ckpt'' 4]"
    by (simp add: initial_state_def validate_def evaluate_def update_best_def
        update_validation_result_def save_checkpoint_def time_check_def train_batch_def
        optimize_batch_def skip_batch_def emit_def add_value_def actual_step_def ckpt_path_def
        path_join_def LearningRateController_default_def LearningRateController_init_def
        demo_env_def demo_args_def no_files_def enumerate_eq_zip)
  then have va: "validated (trace (state_of ?r)) = [(2, 1 / 2), (4, 0)]" by simp
  from two obtain es where es: "trace (state_of ?r) = trace ?s @ es"
    "best_acc ?s = 0 \<and> validated es \<noteq> [] \<longrightarrow>
       best_acc (state_of ?r) = Max (snd ` set (validated es))"
    by blast
  have "trace ?s = []" by (simp add: initial_state_def)
  with es(1) have "validated es = [(2, 1 / 2), (4, 0)]" using va by simp
  with es(2) b0 have best: "best_acc (state_of ?r) = 1 / 2" by simp
  let ?c = "c_emit [Epoch_done]
      (train_epoch demo_cenv ''m'' ''b'' (c_train_iter demo_cenv) (c_emit [Epoch_started] demo_cst_999))"
  have f: "eval_f1 demo_cenv m [0] = f_score (1, 1, 0, 0)" for m
    by (simp add: eval_f1_def demo_cenv_def)
  have "steps_done ?c = 999 + int (length (c_train_iter demo_cenv))"
    unfolding c_emit_fields steps_done_train_epoch by (simp add: demo_cst_999_def)
  then have sd: "steps_done ?c = 1000" by (simp add: demo_cenv_def)
  have "train demo_cenv ''m'' ''b'' 1000 demo_cst_999 = train demo_cenv ''m'' ''b'' 1000 ?c"
    by (rule train_unfold) (simp add: demo_cst_999_def)
  also have "\<dots> = Some ?c" using sd by (intro train_finished) linarith
  finally have t: "train demo_cenv ''m'' ''b'' 1000 demo_cst_999 = Some ?c" .
  have m0: "max_f1 demo_cst_999 = 0" by (simp add: demo_cst_999_def demo_cst_def)
  have ct: "c_trace demo_cst_999 = []" by (simp add: demo_cst_999_def demo_cst_def)
  have fpos: "0 < f_score (1, 1, 0, 0)" by (simp add: f_score_def eps_def)
  have cv: "c_validated (c_trace ?c) = [(1000, f_score (1, 1, 0, 0))]"
    using fpos
    by (simp add: demo_cst_999_def demo_cst_def demo_cenv_def train_step_def coref_evaluate_def
        save_model_def c_emit_def eval_f1_def EVAL_STEPS_def Let_def)
  from two t obtain es' where es': "c_trace ?c = c_trace demo_cst_999 @ es'"
    "max_f1 demo_cst_999 = 0 \<and> c_validated es' \<noteq> [] \<longrightarrow>
       max_f1 ?c = Max (snd ` set (c_validated es'))"
    by blast
  from es'(1) ct cv have "c_validated es' = [(1000, f_score (1, 1, 0, 0))]" by simp
  with es'(2) m0 have mx: "max_f1 ?c = f_score (1, 1, 0, 0)" by simp
  from t m0 cv mx have coref: "\<exists>cst'. train demo_cenv ''m'' ''b'' 1000 demo_cst_999 = Some cst'
         \<and> max_f1 demo_cst_999 = 0
         \<and> c_validated (c_trace cst') = [(1000, f_score (1, 1, 0, 0))]
         \<and> max_f1 cst' = f_score (1, 1, 0, 0)"
    by blast
  show ?thesis
    by (intro conjI) (rule v b0 e va best coref)+
qed







text \<open>
  Claim C10, as stated, fails in its last part: two namespaces that agree on the eleven
  options but not on \<open>model_dir\<close> get the same model name and different checkpoint
  directories, since the directory is \<open>model_dir\<close> joined with the name.
\<close>

theorem model_dir_counterexample:
  "agree_on_imp_opts demo_hp demo_hp_moved
   \<and> get_model_name demo_repr demo_md5 demo_hp = Inr ''coref_0f''
   \<and> get_model_name demo_repr demo_md5 demo_hp_moved = Inr ''coref_0f''
   \<and> coref_model_path demo_hp ''coref_0f'' = ''ckpts/coref_0f''
   \<and> coref_model_path demo_hp_moved ''coref_0f'' = ''other/coref_0f''
   \<and> coref_model_path demo_hp ''coref_0f'' \<noteq> coref_model_path demo_hp_moved ''coref_0f''"
  by (simp add: agree_on_imp_opts_def demo_hp_def demo_hp_moved_def get_model_name_total
      coref_model_path_def path_join_def)

text \<open>
  Claim C10, amended. \<open>get_model_name\<close> never raises and depends only on the eleven options
  of \<open>imp_opts\<close>: two namespaces that agree on them get the same model name, whatever their
  other options are; they get the same checkpoint directory when they also agree on
  \<open>model_dir\<close>.
\<close>

theorem model_name_depends_on_imp_opts:
  fixes repr :: "'t pyval \<Rightarrow> string"
  assumes "agree_on_imp_opts h1 h2"
  shows "get_model_name repr md5 h1 = get_model_name repr md5 h2
    \<and> (\<exists>name. get_model_name repr md5 h1 = Inr name)
    \<and> (hp_model_dir h1 = hp_model_dir h2 \<longrightarrow>
          coref_model_path h1 name = coref_model_path h2 name)"
proof (intro conjI impI)
  show "get_model_name repr md5 h1 = get_model_name repr md5 h2"
    by (rule get_model_name_agree [OF assms])
  show "\<exists>name. get_model_name repr md5 h1 = Inr name"
    by (simp add: get_model_name_total)
  assume "hp_model_dir h1 = hp_model_dir h2"
  then show "coref_model_path h1 name = coref_model_path h2 name"
    by (simp add: coref_model_path_def)
qed

theorem model_name_depends_on_imp_opts_witness:
  "agree_on_imp_opts demo_hp demo_hp_eval
   \<and> hp_data_dir demo_hp \<noteq> hp_data_dir demo_hp_eval
   \<and> hp_eval demo_hp \<noteq> hp_eval demo_hp_eval
   \<and> get_model_name demo_repr demo_md5 demo_hp = get_model_name demo_repr demo_md5 demo_hp_eval
   \<and> hp_model_dir demo_hp = hp_model_dir demo_hp_eval
   \<and> coref_model_path demo_hp ''coref_0f'' = coref_model_path demo_hp_eval ''coref_0f''"
proof -
  have a: "agree_on_imp_opts demo_hp demo_hp_eval"
    by (simp add: agree_on_imp_opts_def demo_hp_eval_def)
  have d: "hp_data_dir demo_hp \<noteq> hp_data_dir demo_hp_eval" "hp_eval demo_hp \<noteq> hp_eval demo_hp_eval"
    "hp_model_dir demo_hp = hp_model_dir demo_hp_eval"
    by (simp_all add: demo_hp_eval_def demo_hp_def)
  from model_name_depends_on_imp_opts [OF a, of demo_repr demo_md5 "''coref_0f''"] d a
  show ?thesis by simp
qed

end
